theory Spec2Isabelle
  imports Main
begin

section \<open>Go values and formatting\<close>

text \<open>
  Decimal rendering of a non-negative index, as \<^verbatim>\<open>%d\<close> in \<^verbatim>\<open>fmt.Sprintf\<close> renders the
  loop index of \<^verbatim>\<open>setFirewall\<close>.
\<close>

definition digit_char :: "nat \<Rightarrow> char" where
  "digit_char n = ''0123456789'' ! n"

function itoa :: "nat \<Rightarrow> string" where
  "itoa n = (if n < 10 then [digit_char n] else itoa (n div 10) @ [digit_char (n mod 10)])"
  by pat_completeness auto
termination
  by (relation "measure id") auto

declare itoa.simps [simp del]

text \<open>\<^verbatim>\<open>%d\<close> of a Go \<^verbatim>\<open>int\<close> that may be negative (the HTTP status code).\<close>

definition itoa_int :: "int \<Rightarrow> string" where
  "itoa_int i = (if i < 0 then CHR ''-'' # itoa (nat (- i)) else itoa (nat i))"

text \<open>
  \<^verbatim>\<open>url.Values\<close> is \<^verbatim>\<open>map[string][]string\<close>; \<^verbatim>\<open>data.Set(k, v)\<close> replaces the entry of
  \<^verbatim>\<open>k\<close> by the one-element slice \<^verbatim>\<open>[v]\<close>.
\<close>

type_synonym url_values = "string \<rightharpoonup> string list"

definition values_Set :: "url_values \<Rightarrow> string \<Rightarrow> string \<Rightarrow> url_values" where
  "values_Set data k v = data(k \<mapsto> [v])"

text \<open>
  The caller-facing values are untyped (\<^verbatim>\<open>any\<close>, \<^verbatim>\<open>[]any\<close>, \<^verbatim>\<open>map[string]any\<close>): a tagged
  union of the dynamic types the resources assert on. A Go map has no duplicate keys and is
  read by key only, so it is an association list read through \<^const>\<open>map_of\<close>.
\<close>

datatype any = ANil | AString string | ABool bool | AInt int | AList "any list"
  | AMap "(string \<times> any) list"

text \<open>A type assertion \<^verbatim>\<open>v, ok := x.(T)\<close>: \<open>None\<close> when \<^verbatim>\<open>ok\<close> is false.\<close>

fun as_string :: "any \<Rightarrow> string option" where
  "as_string (AString s) = Some s"
| "as_string _ = None"

fun as_bool :: "any \<Rightarrow> bool option" where
  "as_bool (ABool b) = Some b"
| "as_bool _ = None"

fun as_int :: "any \<Rightarrow> int option" where
  "as_int (AInt i) = Some i"
| "as_int _ = None"

fun as_list :: "any \<Rightarrow> any list option" where
  "as_list (AList xs) = Some xs"
| "as_list _ = None"

fun as_map :: "any \<Rightarrow> (string \<times> any) list option" where
  "as_map (AMap m) = Some m"
| "as_map _ = None"

text \<open>\<^verbatim>\<open>v, _ := x.(T)\<close>: the zero value of \<^verbatim>\<open>T\<close> when the assertion fails.\<close>

definition string_or_zero :: "any \<Rightarrow> string" where
  "string_or_zero x = (case as_string x of Some s \<Rightarrow> s | None \<Rightarrow> [])"

definition bool_or_zero :: "any \<Rightarrow> bool" where
  "bool_or_zero x = (case as_bool x of Some b \<Rightarrow> b | None \<Rightarrow> False)"

definition int_or_zero :: "any \<Rightarrow> int" where
  "int_or_zero x = (case as_int x of Some i \<Rightarrow> i | None \<Rightarrow> 0)"

definition list_or_zero :: "any \<Rightarrow> any list" where
  "list_or_zero x = (case as_list x of Some xs \<Rightarrow> xs | None \<Rightarrow> [])"

text \<open>\<^verbatim>\<open>m[k]\<close> on a \<^verbatim>\<open>map[string]any\<close>: \<^verbatim>\<open>nil\<close> for a missing key.\<close>

definition map_index :: "(string \<times> any) list \<Rightarrow> string \<Rightarrow> any" where
  "map_index m k = (case map_of m k of Some v \<Rightarrow> v | None \<Rightarrow> ANil)"

subsection \<open>The host's resource data and diagnostics\<close>

text \<open>
  \<^verbatim>\<open>schema.ResourceData\<close> belongs to the host SDK. The resources use its identity
  (\<^verbatim>\<open>Id\<close>, \<^verbatim>\<open>SetId\<close>), the planned value of a field (\<^verbatim>\<open>Get\<close>), the pair of prior and
  planned value (\<^verbatim>\<open>GetChange\<close>, \<^verbatim>\<open>HasChange\<close>) and \<^verbatim>\<open>Set\<close>; the record holds what these
  read and write.
\<close>

record ResourceData =
  rd_id :: string
  rd_prior :: "(string \<times> any) list"
  rd_planned :: "(string \<times> any) list"

definition d_Id :: "ResourceData \<Rightarrow> string" where
  "d_Id d = rd_id d"

definition d_SetId :: "ResourceData \<Rightarrow> string \<Rightarrow> ResourceData" where
  "d_SetId d v = d\<lparr>rd_id := v\<rparr>"

definition d_Get :: "ResourceData \<Rightarrow> string \<Rightarrow> any" where
  "d_Get d k = map_index (rd_planned d) k"

definition d_GetChange :: "ResourceData \<Rightarrow> string \<Rightarrow> any \<times> any" where
  "d_GetChange d k = (map_index (rd_prior d) k, map_index (rd_planned d) k)"

definition d_HasChange :: "ResourceData \<Rightarrow> string \<Rightarrow> bool" where
  "d_HasChange d k = (fst (d_GetChange d k) \<noteq> snd (d_GetChange d k))"

definition d_Set :: "ResourceData \<Rightarrow> string \<Rightarrow> any \<Rightarrow> ResourceData" where
  "d_Set d k v = d\<lparr>rd_planned := (k, v) # rd_planned d\<rparr>"

datatype severity = Error | Warning

record Diagnostic =
  Severity :: severity
  Summary :: string
  Detail :: string

text \<open>
  \<^verbatim>\<open>diag.Errorf\<close> and \<^verbatim>\<open>diag.FromErr\<close> return a one-element list holding an error; an
  \<^verbatim>\<open>error\<close> is its message.
\<close>

definition diag_Errorf :: "string \<Rightarrow> Diagnostic list" where
  "diag_Errorf msg = [\<lparr>Severity = Error, Summary = msg, Detail = []\<rparr>]"

definition diag_FromErr :: "string \<Rightarrow> Diagnostic list" where
  "diag_FromErr err = [\<lparr>Severity = Error, Summary = err, Detail = []\<rparr>]"

section \<open>client.go\<close>

record HetznerRobotClient =
  username :: string
  password :: string
  url :: string

definition codeIsInExpected :: "int \<Rightarrow> int list \<Rightarrow> bool" where
  "codeIsInExpected statusCode expectedStatusCodes \<longleftrightarrow> statusCode \<in> set expectedStatusCodes"

text \<open>
  What \<^verbatim>\<open>makeAPICall\<close> hands to \<^verbatim>\<open>net/http\<close>: the request with its form body (the
  \<^verbatim>\<open>url.Values\<close> that \<^verbatim>\<open>data.Encode()\<close> serialises), the content type header and the basic
  authentication.
\<close>

record http_request =
  req_method :: string
  req_uri :: string
  req_body :: "url_values option"
  req_content_type :: "string option"
  req_basic_auth :: "string \<times> string"

text \<open>
  The network is a parameter. \<open>new_request_error\<close> is the error of
  \<^verbatim>\<open>http.NewRequestWithContext\<close> for a method and a URI, if any; \<open>client_Do\<close> answers a
  request, given the requests sent before it, with a transport error or with a status code
  and what \<^verbatim>\<open>io.ReadAll\<close> makes of the body (an error or the bytes).
\<close>

record http_env =
  new_request_error :: "string \<Rightarrow> string \<Rightarrow> string option"
  client_Do :: "http_request list \<Rightarrow> http_request \<Rightarrow> string + (int \<times> (string + string))"

text \<open>
  \<^verbatim>\<open>makeAPICall\<close>: the result is the error (\<open>Inl\<close>) or the response bytes, with the log of
  the requests sent so far.
\<close>

definition makeAPICall ::
  "http_env \<Rightarrow> HetznerRobotClient \<Rightarrow> http_request list \<Rightarrow> string \<Rightarrow> string \<Rightarrow> url_values option
     \<Rightarrow> int list \<Rightarrow> (string + string) \<times> http_request list" where
  "makeAPICall env c log method uri data expectedStatusCodes =
     (case new_request_error env method uri of
        Some err \<Rightarrow> (Inl err, log)
      | None \<Rightarrow>
          (let request = \<lparr>req_method = method, req_uri = uri, req_body = data,
                 req_content_type =
                   (if data \<noteq> None then Some ''application/x-www-form-urlencoded'' else None),
                 req_basic_auth = (username c, password c)\<rparr>
           in case client_Do env log request of
                Inl err \<Rightarrow> (Inl (''error sending request: '' @ err), log @ [request])
              | Inr (statusCode, read) \<Rightarrow>
                  (case read of
                     Inl err \<Rightarrow> (Inl err, log @ [request])
                   | Inr responseBytes \<Rightarrow>
                       if \<not> codeIsInExpected statusCode expectedStatusCodes
                       then (Inl (''hetzner webservice response status '' @ itoa_int statusCode
                                   @ '': '' @ responseBytes), log @ [request])
                       else (Inr responseBytes, log @ [request]))))"

section \<open>The vSwitch resource\<close>

text \<open>
  Modelled from the spec: the struct \<^verbatim>\<open>HetznerRobotVSwitchServer\<close> is declared in a file
  that is not among the sources. Its fields are those of the spec's Member: the server
  identifier, and the remote-assigned primary address, secondary network block and
  attachment status.
\<close>

record HetznerRobotVSwitchServer =
  ServerNumber :: int
  ServerIP :: string
  ServerIPv6Net :: string
  ServerStatus :: string

text \<open>
  Modelled from the spec: the struct \<^verbatim>\<open>HetznerRobotVSwitch\<close> is declared in the same
  missing file; these are the fields the resource reads. The subnets and cloud networks are
  only handed to \<^verbatim>\<open>d.Set\<close>.
\<close>

record HetznerRobotVSwitch =
  ID :: int
  Name :: string
  Vlan :: int
  Canceled :: bool
  Server :: "HetznerRobotVSwitchServer list"
  Subnet :: any
  CloudNetwork :: any

text \<open>\<^verbatim>\<open>HetznerRobotVSwitchServer{ServerNumber: srvNum}\<close>: the other fields are zero.\<close>

definition new_server :: "int \<Rightarrow> HetznerRobotVSwitchServer" where
  "new_server srvNum =
     \<lparr>ServerNumber = srvNum, ServerIP = [], ServerIPv6Net = [], ServerStatus = []\<rparr>"

definition server_any :: "HetznerRobotVSwitchServer \<Rightarrow> any" where
  "server_any s = AMap [(''server_number'', AInt (ServerNumber s)),
     (''server_ip'', AString (ServerIP s)), (''server_ipv6_net'', AString (ServerIPv6Net s)),
     (''status'', AString (ServerStatus s))]"

text \<open>
  The calls of the vSwitch client. Their bodies are not among the sources: the remote side
  is a parameter that answers each call, given the calls made before it, with an error
  (\<open>Some\<close>, \<open>Inl\<close>) or with success.
\<close>

datatype vswitch_call =
    UpdateVSwitch string string int
  | RemoveVSwitchServers string "HetznerRobotVSwitchServer list"
  | AddVSwitchServers string "HetznerRobotVSwitchServer list"
  | GetVSwitch string

record vswitch_api =
  updateVSwitch :: "vswitch_call list \<Rightarrow> HetznerRobotClient \<Rightarrow> string \<Rightarrow> string \<Rightarrow> int \<Rightarrow> string option"
  removeVSwitchServers ::
    "vswitch_call list \<Rightarrow> HetznerRobotClient \<Rightarrow> string \<Rightarrow> HetznerRobotVSwitchServer list \<Rightarrow> string option"
  addVSwitchServers ::
    "vswitch_call list \<Rightarrow> HetznerRobotClient \<Rightarrow> string \<Rightarrow> HetznerRobotVSwitchServer list \<Rightarrow> string option"
  getVSwitch :: "vswitch_call list \<Rightarrow> HetznerRobotClient \<Rightarrow> string \<Rightarrow> string + HetznerRobotVSwitch"

text \<open>
  \<^verbatim>\<open>resourceVSwitchRead\<close>. Every resource function returns its diagnostics, the resource
  data as it leaves them and the log of the remote calls.
\<close>

definition resourceVSwitchRead ::
  "vswitch_api \<Rightarrow> vswitch_call list \<Rightarrow> ResourceData \<Rightarrow> HetznerRobotClient option
     \<Rightarrow> Diagnostic list \<times> ResourceData \<times> vswitch_call list" where
  "resourceVSwitchRead api log d meta =
     (case meta of
        None \<Rightarrow> (diag_Errorf ''Unable to cast meta to HetznerRobotClient'', d, log)
      | Some c \<Rightarrow>
          (let vSwitchID = d_Id d
           in case getVSwitch api log c vSwitchID of
                Inl err \<Rightarrow>
                  (diag_FromErr (''unable to find VSwitch with ID '' @ vSwitchID @ '': '' @ err),
                   d, log @ [GetVSwitch vSwitchID])
              | Inr vSwitch \<Rightarrow>
                  (let d1 = d_Set d ''name'' (AString (Name vSwitch));
                       d2 = d_Set d1 ''vlan'' (AInt (Vlan vSwitch));
                       d3 = d_Set d2 ''canceled'' (ABool (Canceled vSwitch));
                       d4 = d_Set d3 ''servers'' (AList (map server_any (Server vSwitch)));
                       d5 = d_Set d4 ''subnets'' (Subnet vSwitch);
                       d6 = d_Set d5 ''cloud_networks'' (CloudNetwork vSwitch)
                   in ([], d6, log @ [GetVSwitch vSwitchID]))))"

text \<open>
  The two loops of \<^verbatim>\<open>resourceVSwitchUpdate\<close> that fill the key sets \<^verbatim>\<open>mb\<close> and \<^verbatim>\<open>ma\<close>
  (\<^verbatim>\<open>map[int]struct{}\<close>): an entry that is no map, or whose \<^verbatim>\<open>server_number\<close> is no
  \<^verbatim>\<open>int\<close>, is skipped.
\<close>

fun server_number_set :: "any list \<Rightarrow> (int \<rightharpoonup> unit) \<Rightarrow> (int \<rightharpoonup> unit)" where
  "server_number_set [] m = m"
| "server_number_set (x # xs) m =
     (case as_map x of
        None \<Rightarrow> server_number_set xs m
      | Some srv \<Rightarrow>
          (case as_int (map_index srv ''server_number'') of
             Some serverNum \<Rightarrow> server_number_set xs (m(serverNum \<mapsto> ()))
           | None \<Rightarrow> server_number_set xs m))"

text \<open>
  The two loops that collect \<^verbatim>\<open>serversToRemove\<close> and \<^verbatim>\<open>serversToAdd\<close>: a server of
  \<open>servers\<close> whose number is not found in the key set \<open>m\<close> is appended to \<open>acc\<close>.
\<close>

fun servers_not_found ::
  "(int \<rightharpoonup> unit) \<Rightarrow> any list \<Rightarrow> HetznerRobotVSwitchServer list \<Rightarrow> HetznerRobotVSwitchServer list" where
  "servers_not_found m [] acc = acc"
| "servers_not_found m (x # xs) acc =
     (case as_map x of
        None \<Rightarrow> servers_not_found m xs acc
      | Some srv \<Rightarrow>
          (case as_int (map_index srv ''server_number'') of
             None \<Rightarrow> servers_not_found m xs acc
           | Some srvNum \<Rightarrow>
               (case m srvNum of
                  None \<Rightarrow> servers_not_found m xs (acc @ [new_server srvNum])
                | Some _ \<Rightarrow> servers_not_found m xs acc)))"

definition serversToRemove :: "any list \<Rightarrow> any list \<Rightarrow> HetznerRobotVSwitchServer list" where
  "serversToRemove oldServers newServers =
     (let mb = server_number_set newServers Map.empty in servers_not_found mb oldServers [])"

definition serversToAdd :: "any list \<Rightarrow> any list \<Rightarrow> HetznerRobotVSwitchServer list" where
  "serversToAdd oldServers newServers =
     (let ma = server_number_set oldServers Map.empty in servers_not_found ma newServers [])"

text \<open>
  \<^verbatim>\<open>resourceVSwitchUpdate\<close>. \<open>quote\<close> is the rendering of \<^verbatim>\<open>%q\<close>. The results of the two
  \<^verbatim>\<open>diag.Errorf\<close> calls after the remove and the add call are not bound to anything in the
  source, so neither error reaches the diagnostics that are returned.
\<close>

definition resourceVSwitchUpdate ::
  "(string \<Rightarrow> string) \<Rightarrow> vswitch_api \<Rightarrow> vswitch_call list \<Rightarrow> ResourceData \<Rightarrow> HetznerRobotClient option
     \<Rightarrow> Diagnostic list \<times> ResourceData \<times> vswitch_call list" where
  "resourceVSwitchUpdate quote api log d meta =
     (case meta of
        None \<Rightarrow> (diag_Errorf ''Unable to cast meta to HetznerRobotClient'', d, log)
      | Some c \<Rightarrow>
          (let vSwitchID = d_Id d;
               name = string_or_zero (d_Get d ''name'');
               vlan = int_or_zero (d_Get d ''vlan'');
               log1 = log @ [UpdateVSwitch vSwitchID name vlan]
           in case updateVSwitch api log c vSwitchID name vlan of
                Some err \<Rightarrow>
                  (diag_Errorf (''Unable to update VSwitch:'' @ [CHR 0x0A, CHR 0x09] @ '' '' @ quote err),
                   d, log1)
              | None \<Rightarrow>
                  (if d_HasChange d ''servers''
                   then
                     (let (ov, nv) = d_GetChange d ''servers'';
                          oldServers = list_or_zero ov;
                          newServers = list_or_zero nv;
                          toRemove = serversToRemove oldServers newServers;
                          removeErr = removeVSwitchServers api log1 c vSwitchID toRemove;
                          log2 = log1 @ [RemoveVSwitchServers vSwitchID toRemove];
                          toAdd = serversToAdd oldServers newServers;
                          addErr = addVSwitchServers api log2 c vSwitchID toAdd;
                          log3 = log2 @ [AddVSwitchServers vSwitchID toAdd]
                      in resourceVSwitchRead api log3 d meta)
                   else resourceVSwitchRead api log1 d meta)))"

section \<open>client\_firewall.go\<close>

record HetznerRobotFirewallRule =
  Name :: string
  DstIP :: string
  DstPort :: string
  SrcIP :: string
  SrcPort :: string
  Protocol :: string
  TCPFlags :: string
  Action :: string
  IPVersion :: string

record HetznerRobotFirewallRules =
  Input :: "HetznerRobotFirewallRule list"

record HetznerRobotFirewall =
  IP :: string
  WhitelistHetznerServices :: bool
  Status :: string
  Rules :: HetznerRobotFirewallRules

text \<open>\<^verbatim>\<open>fmt.Sprintf("rules[input][%d][<field>]", idx)\<close>\<close>

definition rule_key :: "nat \<Rightarrow> string \<Rightarrow> string" where
  "rule_key idx field = ''rules[input]['' @ itoa idx @ '']['' @ field @ '']''"

text \<open>The address family the encoder works with: an empty one counts as ipv4.\<close>

definition effective_version :: "HetznerRobotFirewallRule \<Rightarrow> string" where
  "effective_version rule = (if IPVersion rule = '''' then ''ipv4'' else IPVersion rule)"

text \<open>The body of the loop of \<^verbatim>\<open>setFirewall\<close> over \<^verbatim>\<open>firewall.Rules.Input\<close>.\<close>

definition encode_rule :: "nat \<Rightarrow> HetznerRobotFirewallRule \<Rightarrow> url_values \<Rightarrow> url_values" where
  "encode_rule idx rule data0 =
     (let ipVersion = effective_version rule;
          data1 = values_Set data0 (rule_key idx ''name'') (Name rule);
          data2 = values_Set data1 (rule_key idx ''ip_version'') ipVersion;
          data3 = values_Set data2 (rule_key idx ''action'') (Action rule);
          data4 = (if ipVersion \<noteq> ''ipv6''
                   then (let d = values_Set data3 (rule_key idx ''src_ip'') (SrcIP rule)
                         in if DstIP rule \<noteq> ''''
                            then values_Set d (rule_key idx ''dst_ip'') (DstIP rule)
                            else d)
                   else data3);
          data5 = values_Set data4 (rule_key idx ''dst_port'') (DstPort rule);
          data6 = (if SrcPort rule \<noteq> ''''
                   then values_Set data5 (rule_key idx ''src_port'') (SrcPort rule)
                   else data5);
          data7 = (if Protocol rule \<noteq> ''''
                   then values_Set data6 (rule_key idx ''protocol'') (Protocol rule)
                   else data6)
      in if TCPFlags rule \<noteq> ''''
         then values_Set data7 (rule_key idx ''tcp_flags'') (TCPFlags rule)
         else data7)"

text \<open>\<^verbatim>\<open>for idx, rule := range firewall.Rules.Input\<close>, started at index \<open>idx\<close>.\<close>

fun encode_rules :: "nat \<Rightarrow> HetznerRobotFirewallRule list \<Rightarrow> url_values \<Rightarrow> url_values" where
  "encode_rules idx [] data = data"
| "encode_rules idx (rule # rest) data = encode_rules (Suc idx) rest (encode_rule idx rule data)"

text \<open>The form data \<^verbatim>\<open>setFirewall\<close> builds before it posts them.\<close>

definition setFirewall_data :: "HetznerRobotFirewall \<Rightarrow> url_values" where
  "setFirewall_data firewall =
     (let whitelistHOS = (if WhitelistHetznerServices firewall then ''true'' else ''false'');
          data1 = values_Set Map.empty ''whitelist_hos'' whitelistHOS;
          data2 = values_Set data1 ''status'' (Status firewall);
          data3 = encode_rules 0 (Input (Rules firewall)) data2;
          data4 = values_Set data3 ''rules[output][0][name]'' ''Allow all''
      in values_Set data4 ''rules[output][0][action]'' ''accept'')"

section \<open>resource\_firewall.go\<close>

text \<open>
  \<^verbatim>\<open>setFirewall\<close>: the form data are posted to \<^verbatim>\<open>/firewall/<ip>\<close>; the result is the
  error, if any.
\<close>

definition setFirewall ::
  "http_env \<Rightarrow> HetznerRobotClient \<Rightarrow> http_request list \<Rightarrow> HetznerRobotFirewall
     \<Rightarrow> string option \<times> http_request list" where
  "setFirewall env c log firewall =
     (let data = setFirewall_data firewall;
          (res, log') = makeAPICall env c log ''POST'' (url c @ ''/firewall/'' @ IP firewall)
                          (Some data) [200, 202]
      in case res of Inl err \<Rightarrow> (Some err, log') | Inr _ \<Rightarrow> (None, log'))"

text \<open>
  The body of the loop over \<^verbatim>\<open>rules_data\<close> in \<^verbatim>\<open>resourceFirewallCreate\<close> and
  \<^verbatim>\<open>resourceFirewallUpdate\<close>, for an entry that is a map: the warnings it appends to
  \<^verbatim>\<open>diags\<close> and the rule it appends to \<^verbatim>\<open>rules\<close>.
\<close>

definition ipv6_warnings :: "string \<Rightarrow> string \<Rightarrow> string \<Rightarrow> string \<Rightarrow> Diagnostic list" where
  "ipv6_warnings ipVersion name srcIP dstIP =
     (if ipVersion = ''ipv6''
      then (if srcIP \<noteq> []
            then [\<lparr>Severity = Warning,
                    Summary = ''IPv6 rule '' @ [CHR 0x27] @ name @ [CHR 0x27] @ '': src_ip field ignored'',
                    Detail = ''Hetzner Robot API does not support source IP filtering for IPv6 rules. The src_ip field will be ignored.''\<rparr>]
            else [])
        @ (if dstIP \<noteq> []
           then [\<lparr>Severity = Warning,
                   Summary = ''IPv6 rule '' @ [CHR 0x27] @ name @ [CHR 0x27] @ '': dst_ip field ignored'',
                   Detail = ''Hetzner Robot API does not support destination IP filtering for IPv6 rules. The dst_ip field will be ignored.''\<rparr>]
           else [])
      else [])"

definition rule_of_properties ::
  "(string \<times> any) list \<Rightarrow> Diagnostic list \<times> HetznerRobotFirewallRule" where
  "rule_of_properties ruleProperties =
     (let ipVersion = (case as_string (map_index ruleProperties ''ip_version'') of
                         Some v \<Rightarrow> if v \<noteq> [] then v else ''ipv4''
                       | None \<Rightarrow> ''ipv4'');
          name = string_or_zero (map_index ruleProperties ''name'');
          srcIP = string_or_zero (map_index ruleProperties ''src_ip'');
          srcPort = string_or_zero (map_index ruleProperties ''src_port'');
          dstIP = string_or_zero (map_index ruleProperties ''dst_ip'');
          dstPort = string_or_zero (map_index ruleProperties ''dst_port'');
          protocol = string_or_zero (map_index ruleProperties ''protocol'');
          tcpFlags = string_or_zero (map_index ruleProperties ''tcp_flags'');
          action = string_or_zero (map_index ruleProperties ''action'')
      in (ipv6_warnings ipVersion name srcIP dstIP,
          \<lparr>Name = name, DstIP = dstIP, DstPort = dstPort, SrcIP = srcIP, SrcPort = srcPort,
            Protocol = protocol, TCPFlags = tcpFlags, Action = action, IPVersion = ipVersion\<rparr>))"

text \<open>The loop itself: an entry that is no map is skipped.\<close>

fun build_rules ::
  "any list \<Rightarrow> Diagnostic list \<Rightarrow> HetznerRobotFirewallRule list
     \<Rightarrow> Diagnostic list \<times> HetznerRobotFirewallRule list" where
  "build_rules [] diags rules = (diags, rules)"
| "build_rules (ruleMap # rest) diags rules =
     (case as_map ruleMap of
        None \<Rightarrow> build_rules rest diags rules
      | Some ruleProperties \<Rightarrow>
          (let (warnings, rule) = rule_of_properties ruleProperties
           in build_rules rest (diags @ warnings) (rules @ [rule])))"

definition resourceFirewallCreate ::
  "http_env \<Rightarrow> http_request list \<Rightarrow> ResourceData \<Rightarrow> HetznerRobotClient option
     \<Rightarrow> Diagnostic list \<times> ResourceData \<times> http_request list" where
  "resourceFirewallCreate env log d m =
     (case m of
        None \<Rightarrow> (diag_Errorf ''Unable to cast meta to HetznerRobotClient'', d, log)
      | Some c \<Rightarrow>
          (let serverIP = string_or_zero (d_Get d ''server_ip'');
               status = (if bool_or_zero (d_Get d ''active'') then ''active'' else ''disabled'');
               rules_data = list_or_zero (d_Get d ''rule'');
               (diags, rules) = build_rules rules_data [] [];
               (err, log') = setFirewall env c log
                  \<lparr>IP = serverIP,
                   WhitelistHetznerServices = bool_or_zero (d_Get d ''whitelist_hos''),
                   Status = status,
                   Rules = \<lparr>Input = rules\<rparr>\<rparr>
           in case err of
                Some e \<Rightarrow> (diag_FromErr e, d, log')
              | None \<Rightarrow> (diags, d_SetId d serverIP, log')))"

definition resourceFirewallUpdate ::
  "http_env \<Rightarrow> http_request list \<Rightarrow> ResourceData \<Rightarrow> HetznerRobotClient option
     \<Rightarrow> Diagnostic list \<times> ResourceData \<times> http_request list" where
  "resourceFirewallUpdate env log d m =
     (case m of
        None \<Rightarrow> (diag_Errorf ''Unable to cast meta to HetznerRobotClient'', d, log)
      | Some c \<Rightarrow>
          (let serverIP = string_or_zero (d_Get d ''server_ip'');
               status = (if bool_or_zero (d_Get d ''active'') then ''active'' else ''disabled'');
               rules_data = list_or_zero (d_Get d ''rule'');
               (diags, rules) = build_rules rules_data [] [];
               (err, log') = setFirewall env c log
                  \<lparr>IP = serverIP,
                   WhitelistHetznerServices = bool_or_zero (d_Get d ''whitelist_hos''),
                   Status = status,
                   Rules = \<lparr>Input = rules\<rparr>\<rparr>
           in case err of
                Some e \<Rightarrow> (diag_FromErr e, d, log')
              | None \<Rightarrow> (diags, d, log')))"

text \<open>\<^verbatim>\<open>resourceFirewallDelete\<close> ignores its three arguments and returns no diagnostics.\<close>

definition resourceFirewallDelete ::
  "http_env \<Rightarrow> http_request list \<Rightarrow> ResourceData \<Rightarrow> HetznerRobotClient option
     \<Rightarrow> Diagnostic list \<times> ResourceData \<times> http_request list" where
  "resourceFirewallDelete env log d m = ([], d, log)"

text \<open>
  The fields that one pass of the loop body sets for a rule, with their values, in the
  order of the \<^verbatim>\<open>data.Set\<close> calls. The lemmas below prove that \<^const>\<open>encode_rule\<close> writes
  exactly these.
\<close>

definition rule_group :: "HetznerRobotFirewallRule \<Rightarrow> (string \<times> string) list" where
  "rule_group rule =
     [(''name'', Name rule), (''ip_version'', effective_version rule), (''action'', Action rule)]
     @ (if effective_version rule \<noteq> ''ipv6''
        then (''src_ip'', SrcIP rule) # (if DstIP rule \<noteq> [] then [(''dst_ip'', DstIP rule)] else [])
        else [])
     @ [(''dst_port'', DstPort rule)]
     @ (if SrcPort rule \<noteq> [] then [(''src_port'', SrcPort rule)] else [])
     @ (if Protocol rule \<noteq> [] then [(''protocol'', Protocol rule)] else [])
     @ (if TCPFlags rule \<noteq> [] then [(''tcp_flags'', TCPFlags rule)] else [])"

text \<open>The field names that occur in the keys of a rule's group.\<close>

definition rule_field_names :: "string list" where
  "rule_field_names = [''name'', ''ip_version'', ''action'', ''src_ip'', ''dst_ip'', ''dst_port'',
     ''src_port'', ''protocol'', ''tcp_flags'']"

subsection \<open>Reading the request log\<close>

text \<open>The values each request of a log carries under a key of its form body.\<close>

definition sent_field :: "http_request \<Rightarrow> string \<Rightarrow> string list option" where
  "sent_field req k = (case req_body req of None \<Rightarrow> None | Some data \<Rightarrow> data k)"

definition sent_values :: "http_request list \<Rightarrow> string \<Rightarrow> string list option list" where
  "sent_values log k = map (\<lambda>req. sent_field req k) log"

text \<open>
  The arguments both \<^const>\<open>resourceFirewallCreate\<close> and \<^const>\<open>resourceFirewallUpdate\<close> compute
  from the planned values before they call \<^const>\<open>setFirewall\<close>.
\<close>

abbreviation planned_rules :: "ResourceData \<Rightarrow> Diagnostic list \<times> HetznerRobotFirewallRule list" where
  "planned_rules d \<equiv> build_rules (list_or_zero (d_Get d ''rule'')) [] []"

abbreviation planned_firewall :: "ResourceData \<Rightarrow> HetznerRobotFirewall" where
  "planned_firewall d \<equiv>
     \<lparr>IP = string_or_zero (d_Get d ''server_ip''),
      WhitelistHetznerServices = bool_or_zero (d_Get d ''whitelist_hos''),
      Status = (if bool_or_zero (d_Get d ''active'') then ''active'' else ''disabled''),
      Rules = \<lparr>Input = snd (planned_rules d)\<rparr>\<rparr>"

abbreviation firewall_request :: "HetznerRobotClient \<Rightarrow> HetznerRobotFirewall \<Rightarrow> http_request" where
  "firewall_request c firewall \<equiv>
     \<lparr>req_method = ''POST'', req_uri = url c @ ''/firewall/'' @ IP firewall,
      req_body = Some (setFirewall_data firewall),
      req_content_type = Some ''application/x-www-form-urlencoded'',
      req_basic_auth = (username c, password c)\<rparr>"

subsection \<open>Example inputs\<close>

definition example_client :: HetznerRobotClient where
  "example_client = \<lparr>username = ''user'', password = ''secret'',
     url = ''https://robot-ws.your-server.de''\<rparr>"

text \<open>A network that accepts every request with status 200 and one that rejects with 500.\<close>

definition accepting_env :: http_env where
  "accepting_env = \<lparr>new_request_error = (\<lambda>method uri. None),
     client_Do = (\<lambda>log request. Inr (200, Inr ''{}''))\<rparr>"

definition rejecting_env :: http_env where
  "rejecting_env = \<lparr>new_request_error = (\<lambda>method uri. None),
     client_Do = (\<lambda>log request. Inr (500, Inr ''oops''))\<rparr>"

definition ssh_rule :: HetznerRobotFirewallRule where
  "ssh_rule = \<lparr>Name = ''Allow SSH'', DstIP = [], DstPort = ''22'', SrcIP = [], SrcPort = [],
     Protocol = ''tcp'', TCPFlags = [], Action = ''accept'', IPVersion = ''ipv4''\<rparr>"

definition v6_rule :: HetznerRobotFirewallRule where
  "v6_rule = \<lparr>Name = ''web6'', DstIP = ''2001:db8::1/128'', DstPort = ''443'',
     SrcIP = ''2001:db8::/32'', SrcPort = [], Protocol = ''tcp'', TCPFlags = [],
     Action = ''accept'', IPVersion = ''ipv6''\<rparr>"

definition example_firewall :: HetznerRobotFirewall where
  "example_firewall = \<lparr>IP = ''1.1.1.1'', WhitelistHetznerServices = True, Status = ''active'',
     Rules = \<lparr>Input = [ssh_rule, v6_rule]\<rparr>\<rparr>"

definition v6_properties :: "(string \<times> any) list" where
  "v6_properties = [(''name'', AString ''web6''), (''ip_version'', AString ''ipv6''),
     (''src_ip'', AString ''2001:db8::/32''), (''dst_ip'', AString ''2001:db8::1/128''),
     (''dst_port'', AString ''443''), (''protocol'', AString ''tcp''),
     (''action'', AString ''accept'')]"

definition ssh_properties :: "(string \<times> any) list" where
  "ssh_properties = [(''name'', AString ''Allow SSH''), (''ip_version'', AString ''ipv4''),
     (''dst_port'', AString ''22''), (''protocol'', AString ''tcp''),
     (''action'', AString ''accept'')]"

definition example_resource :: ResourceData where
  "example_resource = \<lparr>rd_id = [], rd_prior = [],
     rd_planned = [(''server_ip'', AString ''1.1.1.1''), (''active'', ABool True),
       (''whitelist_hos'', ABool True), (''rule'', AList [AMap ssh_properties, AMap v6_properties])]\<rparr>"

subsection \<open>Member keys and example inputs of the vSwitch resource\<close>

text \<open>
  The key-extraction function of the spec's set differencer, for the untyped entries of a
  server list: the server number of an entry, if it is a map that has one.
\<close>

definition member_key :: "any \<Rightarrow> int option" where
  "member_key x = (case as_map x of None \<Rightarrow> None
     | Some srv \<Rightarrow> as_int (map_index srv ''server_number''))"

definition member_keys :: "any list \<Rightarrow> int list" where
  "member_keys xs = List.map_filter member_key xs"

text \<open>A declared server entry: only the number is supplied by the caller.\<close>

definition member :: "int \<Rightarrow> any" where
  "member n = AMap [(''server_number'', AInt n)]"

text \<open>The rendering of \<^verbatim>\<open>%q\<close> for a message without characters to escape.\<close>

definition quote_plain :: "string \<Rightarrow> string" where
  "quote_plain s = [CHR 0x22] @ s @ [CHR 0x22]"

definition example_vswitch :: HetznerRobotVSwitch where
  "example_vswitch = \<lparr>ID = 4321, HetznerRobotVSwitch.Name = ''lan'', Vlan = 4000,
     Canceled = False, Server = [], Subnet = AList [], CloudNetwork = AList []\<rparr>"

text \<open>
  A remote side on which every call succeeds, and one on which the remove call fails and
  every other call succeeds.
\<close>

definition accepting_api :: vswitch_api where
  "accepting_api = \<lparr>updateVSwitch = (\<lambda>log c vSwitchID name vlan. None),
     removeVSwitchServers = (\<lambda>log c vSwitchID servers. None),
     addVSwitchServers = (\<lambda>log c vSwitchID servers. None),
     getVSwitch = (\<lambda>log c vSwitchID. Inr example_vswitch)\<rparr>"

definition remove_failing_api :: vswitch_api where
  "remove_failing_api = \<lparr>updateVSwitch = (\<lambda>log c vSwitchID name vlan. None),
     removeVSwitchServers = (\<lambda>log c vSwitchID servers. Some ''server not found''),
     addVSwitchServers = (\<lambda>log c vSwitchID servers. None),
     getVSwitch = (\<lambda>log c vSwitchID. Inr example_vswitch)\<rparr>"

text \<open>The servers 1 and 2 are attached and 2 and 3 are declared.\<close>

definition changed_resource :: ResourceData where
  "changed_resource = \<lparr>rd_id = ''4321'',
     rd_prior = [(''name'', AString ''lan''), (''vlan'', AInt 4000),
       (''servers'', AList [member 1, member 2])],
     rd_planned = [(''name'', AString ''lan''), (''vlan'', AInt 4000),
       (''servers'', AList [member 2, member 3])]\<rparr>"

text \<open>No server is attached and server 5 is declared twice.\<close>

definition duplicate_resource :: ResourceData where
  "duplicate_resource = \<lparr>rd_id = ''4321'',
     rd_prior = [(''name'', AString ''lan''), (''vlan'', AInt 4000), (''servers'', AList [])],
     rd_planned = [(''name'', AString ''lan''), (''vlan'', AInt 4000),
       (''servers'', AList [member 5, member 5])]\<rparr>"

subsection \<open>Decimal rendering and the keys of the form data\<close>

lemma digit_char_inj: "n < 10 \<Longrightarrow> m < 10 \<Longrightarrow> digit_char n = digit_char m \<Longrightarrow> n = m"
proof -
  assume n: "n < 10" and m: "m < 10" and e: "digit_char n = digit_char m"
  have "distinct ''0123456789''" by simp
  with n m e show ?thesis
    by (simp add: digit_char_def nth_eq_iff_index_eq del: nth_Cons_numeral nth_Cons_Suc nth_Cons_0)
qed

lemma digit_char_not_bracket: "n < 10 \<Longrightarrow> digit_char n \<noteq> CHR '']''"
proof -
  assume n: "n < 10"
  then have "digit_char n \<in> set ''0123456789''"
    unfolding digit_char_def by (intro nth_mem) simp
  then show ?thesis by auto
qed

lemma itoa_not_Nil: "itoa n \<noteq> []"
  by (subst itoa.simps) simp

lemma itoa_no_bracket: "CHR '']'' \<notin> set (itoa n)"
proof (induction n rule: itoa.induct)
  case (1 n)
  show ?case
  proof (cases "n < 10")
    case True
    then show ?thesis using digit_char_not_bracket [of n]
      by (subst itoa.simps) auto
  next
    case False
    then show ?thesis using 1 digit_char_not_bracket [of "n mod 10"]
      by (subst itoa.simps) auto
  qed
qed

lemma itoa_inj: "itoa n = itoa m \<Longrightarrow> n = m"
proof (induction n arbitrary: m rule: itoa.induct)
  case (1 n)
  show ?case
  proof (cases "n < 10")
    case nsmall: True
    show ?thesis
    proof (cases "m < 10")
      case True
      with nsmall 1(2) show ?thesis
        using digit_char_inj [of n m] by (simp add: itoa.simps [of n] itoa.simps [of m])
    next
      case False
      with nsmall 1(2) itoa_not_Nil [of "m div 10"] show ?thesis
        by (simp add: itoa.simps [of n] itoa.simps [of m])
    qed
  next
    case nbig: False
    show ?thesis
    proof (cases "m < 10")
      case True
      with nbig 1(2) itoa_not_Nil [of "n div 10"] show ?thesis
        by (simp add: itoa.simps [of n] itoa.simps [of m])
    next
      case False
      with nbig 1(2) have e: "itoa (n div 10) = itoa (m div 10)"
        and d: "digit_char (n mod 10) = digit_char (m mod 10)"
        by (simp_all add: itoa.simps [of n] itoa.simps [of m])
      from 1(1) [OF nbig e] have "n div 10 = m div 10" .
      moreover from d have "n mod 10 = m mod 10"
        using digit_char_inj [of "n mod 10" "m mod 10"] by simp
      ultimately show ?thesis
        by (metis div_mult_mod_eq)
    qed
  qed
qed

lemma itoa_0: "itoa 0 = ''0''"
  by (simp add: itoa.simps [of 0] digit_char_def)

lemma itoa_1: "itoa (Suc 0) = ''1''"
  by (simp add: itoa.simps [of "Suc 0"] digit_char_def)

lemma split_at_first:
  "a \<notin> set xs \<Longrightarrow> a \<notin> set xs' \<Longrightarrow> xs @ a # ys = xs' @ a # ys' \<Longrightarrow> xs = xs' \<and> ys = ys'"
proof (induction xs arbitrary: xs')
  case Nil
  then show ?case by (cases xs') auto
next
  case (Cons x xs)
  then show ?case by (cases xs') auto
qed

lemma rule_key_split:
  "rule_key i f = (''rules[input]['' @ itoa i) @ CHR '']'' # (CHR ''['' # f @ '']'')"
  by (simp add: rule_key_def)

lemma key_tail_inj: "CHR ''['' # f @ '']'' = CHR ''['' # g @ '']'' \<Longrightarrow> f = g"
  by simp

lemma rule_key_inj_fwd:
  assumes "rule_key i f = rule_key j g"
  shows "i = j \<and> f = g"
proof -
  from assms have "(''rules[input]['' @ itoa i) @ CHR '']'' # (CHR ''['' # f @ '']'')
      = (''rules[input]['' @ itoa j) @ CHR '']'' # (CHR ''['' # g @ '']'')"
    by (simp only: rule_key_split)
  then have "''rules[input]['' @ (itoa i @ CHR '']'' # (CHR ''['' # f @ '']''))
      = ''rules[input]['' @ (itoa j @ CHR '']'' # (CHR ''['' # g @ '']''))"
    by (simp only: append_assoc)
  then have "itoa i @ CHR '']'' # (CHR ''['' # f @ '']'') = itoa j @ CHR '']'' # (CHR ''['' # g @ '']'')"
    by (simp only: same_append_eq)
  then have e: "itoa i = itoa j \<and> CHR ''['' # f @ '']'' = CHR ''['' # g @ '']''"
    by (rule split_at_first [OF itoa_no_bracket [of i] itoa_no_bracket [of j]])
  from e have "itoa i = itoa j" by (rule conjunct1)
  then have "i = j" by (rule itoa_inj)
  moreover from e have "CHR ''['' # f @ '']'' = CHR ''['' # g @ '']''" by (rule conjunct2)
  then have "f = g" by (rule key_tail_inj)
  ultimately show "i = j \<and> f = g" ..
qed

lemma rule_key_inj: "rule_key i f = rule_key j g \<longleftrightarrow> i = j \<and> f = g"
proof (rule iffI)
  assume "rule_key i f = rule_key j g"
  then show "i = j \<and> f = g" by (rule rule_key_inj_fwd)
next
  assume a: "i = j \<and> f = g"
  from a have "i = j" by (rule conjunct1)
  moreover from a have "f = g" by (rule conjunct2)
  ultimately show "rule_key i f = rule_key j g" by (simp only:)
qed

lemma rule_key_not_fixed:
  "rule_key i f \<noteq> ''whitelist_hos''" "rule_key i f \<noteq> ''status''"
  "rule_key i f \<noteq> ''rules[output][0][name]''" "rule_key i f \<noteq> ''rules[output][0][action]''"
  by (simp_all add: rule_key_def)

subsection \<open>What the encoder writes\<close>

lemma encode_rule_key:
  "encode_rule idx r data (rule_key j f) =
     (if j = idx
      then (case map_of (rule_group r) f of Some v \<Rightarrow> Some [v] | None \<Rightarrow> data (rule_key j f))
      else data (rule_key j f))"
  by (simp add: encode_rule_def rule_group_def values_Set_def Let_def rule_key_inj)

lemma encode_rule_other: "\<forall>f. k \<noteq> rule_key idx f \<Longrightarrow> encode_rule idx r data k = data k"
  by (simp add: encode_rule_def values_Set_def Let_def)

lemma encode_rules_key:
  "encode_rules idx rs data (rule_key j f) =
     (if idx \<le> j \<and> j < idx + length rs
      then (case map_of (rule_group (rs ! (j - idx))) f of
              Some v \<Rightarrow> Some [v] | None \<Rightarrow> data (rule_key j f))
      else data (rule_key j f))"
proof (induction rs arbitrary: idx data)
  case Nil
  show ?case by (cases "idx \<le> j") auto
next
  case (Cons r rs)
  show ?case
  proof (cases "j = idx")
    case True
    then show ?thesis
      using Cons.IH [of "Suc idx" "encode_rule idx r data"] by (simp add: encode_rule_key split: option.split)
  next
    case False
    then have "(r # rs) ! (j - idx) = rs ! (j - Suc idx)" if "idx \<le> j"
      using that by (simp add: nth_Cons')
    with False show ?thesis
      using Cons.IH [of "Suc idx" "encode_rule idx r data"] by (auto simp add: encode_rule_key split: option.split)
  qed
qed

lemma encode_rules_other:
  "\<forall>j f. k \<noteq> rule_key j f \<Longrightarrow> encode_rules idx rs data k = data k"
  by (induction rs arbitrary: idx data) (simp_all add: encode_rule_other)

lemma rule_group_fields: "map_of (rule_group r) f = Some v \<Longrightarrow> f \<in> set rule_field_names"
  by (auto simp add: rule_group_def rule_field_names_def split: if_splits)

lemma setFirewall_data_key:
  "setFirewall_data fw (rule_key j f) =
     (if j < length (Input (Rules fw))
      then map_option (\<lambda>v. [v]) (map_of (rule_group (Input (Rules fw) ! j)) f)
      else None)"
  by (simp add: setFirewall_data_def values_Set_def Let_def rule_key_not_fixed encode_rules_key
      split: option.split)

lemma fixed_not_rule_key:
  "''whitelist_hos'' \<noteq> rule_key i f" "''status'' \<noteq> rule_key i f"
  "''rules[output][0][name]'' \<noteq> rule_key i f" "''rules[output][0][action]'' \<noteq> rule_key i f"
  by (simp_all add: rule_key_def)

lemma encode_rules_fixed:
  "encode_rules idx rs data ''whitelist_hos'' = data ''whitelist_hos''"
  "encode_rules idx rs data ''status'' = data ''status''"
  "encode_rules idx rs data ''rules[output][0][name]'' = data ''rules[output][0][name]''"
  "encode_rules idx rs data ''rules[output][0][action]'' = data ''rules[output][0][action]''"
  by (rule encode_rules_other, simp add: fixed_not_rule_key)+

lemma setFirewall_data_fixed:
  "setFirewall_data fw ''whitelist_hos''
     = Some [if WhitelistHetznerServices fw then ''true'' else ''false'']"
  "setFirewall_data fw ''status'' = Some [Status fw]"
  "setFirewall_data fw ''rules[output][0][name]'' = Some [''Allow all'']"
  "setFirewall_data fw ''rules[output][0][action]'' = Some [''accept'']"
  by (simp_all add: setFirewall_data_def values_Set_def Let_def encode_rules_fixed)

lemma setFirewall_data_dom:
  assumes "setFirewall_data fw k = Some vs"
  shows "k \<in> {''whitelist_hos'', ''status'', ''rules[output][0][name]'', ''rules[output][0][action]''}
         \<or> (\<exists>i f. i < length (Input (Rules fw)) \<and> f \<in> set rule_field_names \<and> k = rule_key i f)"
proof (cases "\<exists>j f. k = rule_key j f")
  case True
  then obtain j f where k: "k = rule_key j f" by blast
  with assms have j: "j < length (Input (Rules fw))"
    and "map_of (rule_group (Input (Rules fw) ! j)) f \<noteq> None"
    by (auto simp add: setFirewall_data_key split: if_splits)
  then have "f \<in> set rule_field_names" using rule_group_fields by blast
  with j k show ?thesis by blast
next
  case False
  then have "encode_rules 0 (Input (Rules fw)) d k = d k" for d
    by (simp add: encode_rules_other)
  with assms show ?thesis
    by (auto simp add: setFirewall_data_def values_Set_def Let_def split: if_splits)
qed

subsection \<open>The fields of a rule's group, one by one\<close>

lemma rule_group_name: "map_of (rule_group r) ''name'' = Some (Name r)"
  by (simp add: rule_group_def)

lemma rule_group_ip_version: "map_of (rule_group r) ''ip_version'' = Some (effective_version r)"
  by (simp add: rule_group_def)

lemma rule_group_action: "map_of (rule_group r) ''action'' = Some (Action r)"
  by (simp add: rule_group_def)

lemma rule_group_dst_port: "map_of (rule_group r) ''dst_port'' = Some (DstPort r)"
  by (simp add: rule_group_def)

lemma rule_group_src_ip:
  "map_of (rule_group r) ''src_ip''
     = (if effective_version r \<noteq> ''ipv6'' then Some (SrcIP r) else None)"
  by (simp add: rule_group_def)

lemma rule_group_dst_ip:
  "map_of (rule_group r) ''dst_ip''
     = (if effective_version r \<noteq> ''ipv6'' \<and> DstIP r \<noteq> [] then Some (DstIP r) else None)"
  by (simp add: rule_group_def)

lemma rule_group_src_port:
  "map_of (rule_group r) ''src_port'' = (if SrcPort r \<noteq> [] then Some (SrcPort r) else None)"
  by (simp add: rule_group_def)

lemma rule_group_protocol:
  "map_of (rule_group r) ''protocol'' = (if Protocol r \<noteq> [] then Some (Protocol r) else None)"
  by (simp add: rule_group_def)

lemma rule_group_tcp_flags:
  "map_of (rule_group r) ''tcp_flags'' = (if TCPFlags r \<noteq> [] then Some (TCPFlags r) else None)"
  by (simp add: rule_group_def)

lemmas rule_group_field = rule_group_name rule_group_ip_version rule_group_action
  rule_group_dst_port rule_group_src_ip rule_group_dst_ip rule_group_src_port
  rule_group_protocol rule_group_tcp_flags

lemma rule_key_0: "rule_key 0 f = ''rules[input][0]['' @ f @ '']''"
  by (simp add: rule_key_def itoa_0)

lemma rule_key_1: "rule_key (Suc 0) f = ''rules[input][1]['' @ f @ '']''"
  by (simp add: rule_key_def itoa_1)

subsection \<open>The firewall resource\<close>

lemma setFirewall_sent:
  assumes "new_request_error env ''POST'' (url c @ ''/firewall/'' @ IP fw) = None"
  shows "snd (setFirewall env c log fw) = log @ [firewall_request c fw]"
  using assms
  by (simp add: setFirewall_def makeAPICall_def Let_def split: sum.split prod.split)

lemma setFirewall_not_sent:
  assumes "new_request_error env ''POST'' (url c @ ''/firewall/'' @ IP fw) = Some e"
  shows "setFirewall env c log fw = (Some e, log)"
  using assms by (simp add: setFirewall_def makeAPICall_def)

lemma create_unfold:
  "resourceFirewallCreate env log d (Some c) =
     (case setFirewall env c log (planned_firewall d) of
        (Some e, log') \<Rightarrow> (diag_FromErr e, d, log')
      | (None, log') \<Rightarrow>
          (fst (planned_rules d), d_SetId d (string_or_zero (d_Get d ''server_ip'')), log'))"
  by (simp add: resourceFirewallCreate_def Let_def split: prod.split option.split)

lemma update_unfold:
  "resourceFirewallUpdate env log d (Some c) =
     (case setFirewall env c log (planned_firewall d) of
        (Some e, log') \<Rightarrow> (diag_FromErr e, d, log')
      | (None, log') \<Rightarrow> (fst (planned_rules d), d, log'))"
  by (simp add: resourceFirewallUpdate_def Let_def split: prod.split option.split)

lemma create_log: "snd (snd (resourceFirewallCreate env log d (Some c)))
    = snd (setFirewall env c log (planned_firewall d))"
  by (simp add: create_unfold split: prod.split option.split)

lemma update_log: "snd (snd (resourceFirewallUpdate env log d (Some c)))
    = snd (setFirewall env c log (planned_firewall d))"
  by (simp add: update_unfold split: prod.split option.split)

lemma sent_values_request:
  "sent_values (drop (length log) (log @ [firewall_request c fw])) k = [setFirewall_data fw k]"
  by (simp add: sent_values_def sent_field_def)

lemma create_sent_flags:
  assumes "new_request_error env ''POST'' (url c @ ''/firewall/'' @ string_or_zero (d_Get d ''server_ip'')) = None"
  shows "sent_values (drop (length log) (snd (snd (resourceFirewallCreate env log d (Some c))))) ''whitelist_hos''
           = [Some [if bool_or_zero (d_Get d ''whitelist_hos'') then ''true'' else ''false'']]"
    and "sent_values (drop (length log) (snd (snd (resourceFirewallCreate env log d (Some c))))) ''status''
           = [Some [if bool_or_zero (d_Get d ''active'') then ''active'' else ''disabled'']]"
proof -
  from assms have "snd (setFirewall env c log (planned_firewall d))
      = log @ [firewall_request c (planned_firewall d)]"
    by (intro setFirewall_sent) simp
  then have l: "snd (snd (resourceFirewallCreate env log d (Some c)))
      = log @ [firewall_request c (planned_firewall d)]"
    by (simp only: create_log)
  show "sent_values (drop (length log) (snd (snd (resourceFirewallCreate env log d (Some c))))) ''whitelist_hos''
           = [Some [if bool_or_zero (d_Get d ''whitelist_hos'') then ''true'' else ''false'']]"
    unfolding l sent_values_request setFirewall_data_fixed by simp
  show "sent_values (drop (length log) (snd (snd (resourceFirewallCreate env log d (Some c))))) ''status''
           = [Some [if bool_or_zero (d_Get d ''active'') then ''active'' else ''disabled'']]"
    unfolding l sent_values_request setFirewall_data_fixed by simp
qed

lemma build_rules_eq:
  "build_rules xs diags rules =
     (diags @ concat (map (fst \<circ> rule_of_properties) (List.map_filter as_map xs)),
      rules @ map (snd \<circ> rule_of_properties) (List.map_filter as_map xs))"
  by (induction xs arbitrary: diags rules)
     (simp_all split: option.split prod.split)

lemma example_d_Get:
  "d_Get example_resource ''server_ip'' = AString ''1.1.1.1''"
  "d_Get example_resource ''active'' = ABool True"
  "d_Get example_resource ''whitelist_hos'' = ABool True"
  "d_Get example_resource ''rule'' = AList [AMap ssh_properties, AMap v6_properties]"
  by (simp_all add: d_Get_def map_index_def example_resource_def)

lemma accepting_env_answers: "new_request_error accepting_env method uri = None"
  "client_Do accepting_env log req = Inr (200, Inr ''{}'')"
  by (simp_all add: accepting_env_def)

lemma rejecting_env_answers: "new_request_error rejecting_env method uri = None"
  "client_Do rejecting_env log req = Inr (500, Inr ''oops'')"
  by (simp_all add: rejecting_env_def)

lemma setFirewall_accepted: "fst (setFirewall accepting_env c log fw) = None"
  by (simp add: setFirewall_def makeAPICall_def Let_def accepting_env_answers codeIsInExpected_def)

lemma setFirewall_rejected:
  "fst (setFirewall rejecting_env c log fw) = Some ''hetzner webservice response status 500: oops''"
proof -
  have "itoa_int 500 = ''500''"
    by (simp add: itoa_int_def itoa.simps [of 500] itoa.simps [of 50] itoa.simps [of 5]
        digit_char_def)
  then show ?thesis
    by (simp add: setFirewall_def makeAPICall_def Let_def rejecting_env_answers codeIsInExpected_def)
qed

subsection \<open>The membership loops\<close>

lemma member_keys_Nil: "member_keys [] = []"
  by (simp add: member_keys_def)

lemma member_keys_Cons:
  "member_keys (x # xs) = (case member_key x of None \<Rightarrow> member_keys xs | Some k \<Rightarrow> k # member_keys xs)"
  by (simp add: member_keys_def split: option.split)

lemma member_key_member: "member_key (member n) = Some n"
  by (simp add: member_key_def member_def map_index_def)

lemma server_number_set_eq:
  "server_number_set xs m k = (if k \<in> set (member_keys xs) then Some () else m k)"
proof (induction xs arbitrary: m)
  case Nil
  then show ?case by (simp add: member_keys_Nil)
next
  case (Cons x xs)
  show ?case
  proof (cases "as_map x")
    case None
    then show ?thesis by (simp add: Cons.IH member_keys_Cons member_key_def)
  next
    case (Some srv)
    then show ?thesis
      by (cases "as_int (map_index srv ''server_number'')")
        (simp_all add: Cons.IH member_keys_Cons member_key_def)
  qed
qed

lemma servers_not_found_eq:
  "servers_not_found m xs acc = acc @ map new_server (filter (\<lambda>k. m k = None) (member_keys xs))"
proof (induction xs arbitrary: acc)
  case Nil
  then show ?case by (simp add: member_keys_Nil)
next
  case (Cons x xs)
  show ?case
  proof (cases "as_map x")
    case None
    then show ?thesis by (simp add: Cons.IH member_keys_Cons member_key_def)
  next
    case (Some srv)
    then show ?thesis
      by (cases "as_int (map_index srv ''server_number'')")
        (auto simp add: Cons.IH member_keys_Cons member_key_def split: option.split)
  qed
qed

lemma serversToAdd_eq:
  "serversToAdd old new
     = map new_server (filter (\<lambda>k. k \<notin> set (member_keys old)) (member_keys new))"
  by (simp add: serversToAdd_def servers_not_found_eq server_number_set_eq)

lemma serversToRemove_eq:
  "serversToRemove old new
     = map new_server (filter (\<lambda>k. k \<notin> set (member_keys new)) (member_keys old))"
  by (simp add: serversToRemove_def servers_not_found_eq server_number_set_eq)

lemma ServerNumber_new_server: "ServerNumber (new_server k) = k"
  by (simp add: new_server_def)

subsection \<open>The calls of the vSwitch update\<close>

lemma vswitch_read_log:
  "snd (snd (resourceVSwitchRead api log d (Some c))) = log @ [GetVSwitch (d_Id d)]"
  by (simp add: resourceVSwitchRead_def Let_def split: sum.split)

lemma vswitch_read_diags:
  "fst (resourceVSwitchRead api log d (Some c)) =
     (case getVSwitch api log c (d_Id d) of
        Inl err \<Rightarrow> diag_FromErr (''unable to find VSwitch with ID '' @ d_Id d @ '': '' @ err)
      | Inr vSwitch \<Rightarrow> [])"
  by (simp add: resourceVSwitchRead_def Let_def split: sum.split)

lemma vswitch_update_changed:
  assumes "updateVSwitch api log c (d_Id d) (string_or_zero (d_Get d ''name''))
             (int_or_zero (d_Get d ''vlan'')) = None"
    and "d_HasChange d ''servers''"
  shows "resourceVSwitchUpdate quote api log d (Some c) =
     resourceVSwitchRead api
       (log @ [UpdateVSwitch (d_Id d) (string_or_zero (d_Get d ''name'')) (int_or_zero (d_Get d ''vlan'')),
               RemoveVSwitchServers (d_Id d)
                 (serversToRemove (list_or_zero (fst (d_GetChange d ''servers'')))
                    (list_or_zero (snd (d_GetChange d ''servers'')))),
               AddVSwitchServers (d_Id d)
                 (serversToAdd (list_or_zero (fst (d_GetChange d ''servers'')))
                    (list_or_zero (snd (d_GetChange d ''servers''))))])
       d (Some c)"
  using assms by (simp add: resourceVSwitchUpdate_def Let_def split: prod.split)

lemma vswitch_update_first_call:
  "\<exists>rest. snd (snd (resourceVSwitchUpdate quote api log d (Some c)))
     = log @ UpdateVSwitch (d_Id d) (string_or_zero (d_Get d ''name'')) (int_or_zero (d_Get d ''vlan''))
         # rest"
  by (simp add: resourceVSwitchUpdate_def Let_def vswitch_read_log split: prod.split option.split)

lemma changed_resource_fields:
  "d_Id changed_resource = ''4321''"
  "string_or_zero (d_Get changed_resource ''name'') = ''lan''"
  "int_or_zero (d_Get changed_resource ''vlan'') = 4000"
  "d_GetChange changed_resource ''servers'' = (AList [member 1, member 2], AList [member 2, member 3])"
  by (simp_all add: changed_resource_def d_Id_def d_Get_def d_GetChange_def map_index_def
      string_or_zero_def int_or_zero_def)

lemma changed_resource_HasChange: "d_HasChange changed_resource ''servers''"
  by (simp add: d_HasChange_def changed_resource_fields member_def)

lemma duplicate_resource_fields:
  "d_Id duplicate_resource = ''4321''"
  "string_or_zero (d_Get duplicate_resource ''name'') = ''lan''"
  "int_or_zero (d_Get duplicate_resource ''vlan'') = 4000"
  "d_GetChange duplicate_resource ''servers'' = (AList [], AList [member 5, member 5])"
  by (simp_all add: duplicate_resource_def d_Id_def d_Get_def d_GetChange_def map_index_def
      string_or_zero_def int_or_zero_def)

lemma duplicate_resource_HasChange: "d_HasChange duplicate_resource ''servers''"
  by (simp add: d_HasChange_def duplicate_resource_fields)

lemma member_keys_examples:
  "member_keys [member 1, member 2] = [1, 2]"
  "member_keys [member 2, member 3] = [2, 3]"
  "member_keys [member 2, member 1] = [2, 1]"
  "member_keys [member 5, member 5] = [5, 5]"
  by (simp_all add: member_keys_Cons member_keys_Nil member_key_member)

lemma accepting_api_answers:
  "updateVSwitch accepting_api log c vSwitchID name vlan = None"
  "removeVSwitchServers accepting_api log c vSwitchID servers = None"
  "addVSwitchServers accepting_api log c vSwitchID servers = None"
  "getVSwitch accepting_api log c vSwitchID = Inr example_vswitch"
  by (simp_all add: accepting_api_def)

lemma remove_failing_api_answers:
  "updateVSwitch remove_failing_api log c vSwitchID name vlan = None"
  "removeVSwitchServers remove_failing_api log c vSwitchID servers = Some ''server not found''"
  "addVSwitchServers remove_failing_api log c vSwitchID servers = None"
  "getVSwitch remove_failing_api log c vSwitchID = Inr example_vswitch"
  by (simp_all add: remove_failing_api_def)

section \<open>Address-family restrictions of a rule\<close>

text \<open>
  C1 as stated fails: the rule that the resource builds from an ipv6 entry with a source
  address still has this source address.
\<close>

theorem ipv6_rule_keeps_source_address:
  "IPVersion (snd (rule_of_properties v6_properties)) = ''ipv6''
   \<and> SrcIP (snd (rule_of_properties v6_properties)) = ''2001:db8::/32''
   \<and> SrcIP (snd (rule_of_properties v6_properties)) \<noteq> []"
  by (simp add: rule_of_properties_def Let_def v6_properties_def map_index_def string_or_zero_def)

text \<open>
  C1, as the code has it. The step that builds a rule from a declared entry copies every
  declared field into the rule, the addresses included, whatever the address family (an
  absent or empty family counts as ipv4). For the family ipv6 it produces exactly one
  warning for a non-empty source address and one for a non-empty destination address, in
  this order, each naming the rule and the field, and the encoder then writes neither the
  source nor the destination address of such a rule. For any other family it produces no
  warning.
\<close>

theorem rule_warnings_and_dropped_addresses:
  "let (warnings, rule) = rule_of_properties ps in
     Name rule = string_or_zero (map_index ps ''name'')
   \<and> SrcIP rule = string_or_zero (map_index ps ''src_ip'')
   \<and> SrcPort rule = string_or_zero (map_index ps ''src_port'')
   \<and> DstIP rule = string_or_zero (map_index ps ''dst_ip'')
   \<and> DstPort rule = string_or_zero (map_index ps ''dst_port'')
   \<and> Protocol rule = string_or_zero (map_index ps ''protocol'')
   \<and> TCPFlags rule = string_or_zero (map_index ps ''tcp_flags'')
   \<and> Action rule = string_or_zero (map_index ps ''action'')
   \<and> IPVersion rule = (if string_or_zero (map_index ps ''ip_version'') = [] then ''ipv4''
                         else string_or_zero (map_index ps ''ip_version''))
   \<and> (IPVersion rule = ''ipv6'' \<longrightarrow>
         map Summary warnings =
           (if SrcIP rule \<noteq> []
            then [''IPv6 rule '' @ [CHR 0x27] @ Name rule @ [CHR 0x27] @ '': src_ip field ignored'']
            else [])
           @ (if DstIP rule \<noteq> []
              then [''IPv6 rule '' @ [CHR 0x27] @ Name rule @ [CHR 0x27] @ '': dst_ip field ignored'']
              else [])
       \<and> (\<forall>w \<in> set warnings. Severity w = Warning)
       \<and> (\<forall>idx data.
             encode_rule idx rule data (rule_key idx ''src_ip'') = data (rule_key idx ''src_ip'')
           \<and> encode_rule idx rule data (rule_key idx ''dst_ip'') = data (rule_key idx ''dst_ip'')))
   \<and> (IPVersion rule \<noteq> ''ipv6'' \<longrightarrow> warnings = [])"
proof -
  obtain warnings rule where wr: "rule_of_properties ps = (warnings, rule)"
    by (cases "rule_of_properties ps")
  have v: "IPVersion rule = (if string_or_zero (map_index ps ''ip_version'') = [] then ''ipv4''
                         else string_or_zero (map_index ps ''ip_version''))"
    using wr by (auto simp add: rule_of_properties_def Let_def string_or_zero_def split: option.split)
  have w: "warnings = ipv6_warnings (IPVersion rule) (Name rule) (SrcIP rule) (DstIP rule)"
    using wr by (auto simp add: rule_of_properties_def Let_def)
  have fields: "Name rule = string_or_zero (map_index ps ''name'')
   \<and> SrcIP rule = string_or_zero (map_index ps ''src_ip'')
   \<and> SrcPort rule = string_or_zero (map_index ps ''src_port'')
   \<and> DstIP rule = string_or_zero (map_index ps ''dst_ip'')
   \<and> DstPort rule = string_or_zero (map_index ps ''dst_port'')
   \<and> Protocol rule = string_or_zero (map_index ps ''protocol'')
   \<and> TCPFlags rule = string_or_zero (map_index ps ''tcp_flags'')
   \<and> Action rule = string_or_zero (map_index ps ''action'')"
    using wr by (auto simp add: rule_of_properties_def Let_def)
  have six: "map Summary warnings =
           (if SrcIP rule \<noteq> []
            then [''IPv6 rule '' @ [CHR 0x27] @ Name rule @ [CHR 0x27] @ '': src_ip field ignored'']
            else [])
           @ (if DstIP rule \<noteq> []
              then [''IPv6 rule '' @ [CHR 0x27] @ Name rule @ [CHR 0x27] @ '': dst_ip field ignored'']
              else [])
       \<and> (\<forall>w \<in> set warnings. Severity w = Warning)
       \<and> (\<forall>idx data.
             encode_rule idx rule data (rule_key idx ''src_ip'') = data (rule_key idx ''src_ip'')
           \<and> encode_rule idx rule data (rule_key idx ''dst_ip'') = data (rule_key idx ''dst_ip''))"
    if "IPVersion rule = ''ipv6''"
  proof (intro conjI)
    show "map Summary warnings =
           (if SrcIP rule \<noteq> []
            then [''IPv6 rule '' @ [CHR 0x27] @ Name rule @ [CHR 0x27] @ '': src_ip field ignored'']
            else [])
           @ (if DstIP rule \<noteq> []
              then [''IPv6 rule '' @ [CHR 0x27] @ Name rule @ [CHR 0x27] @ '': dst_ip field ignored'']
              else [])"
      unfolding w using that by (simp add: ipv6_warnings_def)
    show "\<forall>w \<in> set warnings. Severity w = Warning"
      unfolding w using that by (auto simp add: ipv6_warnings_def split: if_splits)
    from that have "effective_version rule = ''ipv6''"
      by (simp add: effective_version_def)
    then show "\<forall>idx data.
             encode_rule idx rule data (rule_key idx ''src_ip'') = data (rule_key idx ''src_ip'')
           \<and> encode_rule idx rule data (rule_key idx ''dst_ip'') = data (rule_key idx ''dst_ip'')"
      by (simp add: encode_rule_key rule_group_src_ip rule_group_dst_ip)
  qed
  have four: "warnings = []" if "IPVersion rule \<noteq> ''ipv6''"
    unfolding w using that by (simp add: ipv6_warnings_def)
  from six have six_imp: "IPVersion rule = ''ipv6'' \<longrightarrow>
         map Summary warnings =
           (if SrcIP rule \<noteq> []
            then [''IPv6 rule '' @ [CHR 0x27] @ Name rule @ [CHR 0x27] @ '': src_ip field ignored'']
            else [])
           @ (if DstIP rule \<noteq> []
              then [''IPv6 rule '' @ [CHR 0x27] @ Name rule @ [CHR 0x27] @ '': dst_ip field ignored'']
              else [])
       \<and> (\<forall>w \<in> set warnings. Severity w = Warning)
       \<and> (\<forall>idx data.
             encode_rule idx rule data (rule_key idx ''src_ip'') = data (rule_key idx ''src_ip'')
           \<and> encode_rule idx rule data (rule_key idx ''dst_ip'') = data (rule_key idx ''dst_ip''))"
    by (rule impI)
  from four have four_imp: "IPVersion rule \<noteq> ''ipv6'' \<longrightarrow> warnings = []"
    by (rule impI)
  note rest = conjI [OF v conjI [OF six_imp four_imp]]
  note f = fields
  show ?thesis
    unfolding wr Let_def prod.case
    by (rule conjI [OF f [THEN conjunct1] conjI [OF f [THEN conjunct2, THEN conjunct1]
      conjI [OF f [THEN conjunct2, THEN conjunct2, THEN conjunct1]
      conjI [OF f [THEN conjunct2, THEN conjunct2, THEN conjunct2, THEN conjunct1]
      conjI [OF f [THEN conjunct2, THEN conjunct2, THEN conjunct2, THEN conjunct2, THEN conjunct1]
      conjI [OF f [THEN conjunct2, THEN conjunct2, THEN conjunct2, THEN conjunct2, THEN conjunct2,
        THEN conjunct1]
      conjI [OF f [THEN conjunct2, THEN conjunct2, THEN conjunct2, THEN conjunct2, THEN conjunct2,
        THEN conjunct2, THEN conjunct1]
      conjI [OF f [THEN conjunct2, THEN conjunct2, THEN conjunct2, THEN conjunct2, THEN conjunct2,
        THEN conjunct2, THEN conjunct2] rest]]]]]]]])
qed

theorem rule_warnings_and_dropped_addresses_witness:
  "IPVersion (snd (rule_of_properties v6_properties)) = ''ipv6''
   \<and> map Summary (fst (rule_of_properties v6_properties))
       = [''IPv6 rule '' @ [CHR 0x27] @ ''web6'' @ [CHR 0x27] @ '': src_ip field ignored'',
          ''IPv6 rule '' @ [CHR 0x27] @ ''web6'' @ [CHR 0x27] @ '': dst_ip field ignored'']
   \<and> encode_rule 0 (snd (rule_of_properties v6_properties)) Map.empty (rule_key 0 ''src_ip'') = None
   \<and> IPVersion (snd (rule_of_properties ssh_properties)) \<noteq> ''ipv6''
   \<and> fst (rule_of_properties ssh_properties) = []"
proof -
  have f: "string_or_zero (map_index v6_properties ''ip_version'') = ''ipv6''"
    "string_or_zero (map_index v6_properties ''name'') = ''web6''"
    "string_or_zero (map_index v6_properties ''src_ip'') = ''2001:db8::/32''"
    "string_or_zero (map_index v6_properties ''dst_ip'') = ''2001:db8::1/128''"
    by (simp_all add: v6_properties_def map_index_def string_or_zero_def)
  have g: "string_or_zero (map_index ssh_properties ''ip_version'') = ''ipv4''"
    by (simp add: ssh_properties_def map_index_def string_or_zero_def)
  obtain w6 r6 where p6: "rule_of_properties v6_properties = (w6, r6)"
    by (cases "rule_of_properties v6_properties")
  obtain w4 r4 where p4: "rule_of_properties ssh_properties = (w4, r4)"
    by (cases "rule_of_properties ssh_properties")
  note t6 = rule_warnings_and_dropped_addresses [of v6_properties, unfolded p6 Let_def prod.case f]
  note t4 = rule_warnings_and_dropped_addresses [of ssh_properties, unfolded p4 Let_def prod.case g]
  from t6 have v6: "IPVersion r6 = ''ipv6''" by simp
  from t6 have n6: "Name r6 = ''web6''" "SrcIP r6 = ''2001:db8::/32''"
    "DstIP r6 = ''2001:db8::1/128''"
    by simp_all
  from t6 v6 have s6: "map Summary w6 =
           (if SrcIP r6 \<noteq> []
            then [''IPv6 rule '' @ [CHR 0x27] @ Name r6 @ [CHR 0x27] @ '': src_ip field ignored'']
            else [])
           @ (if DstIP r6 \<noteq> []
              then [''IPv6 rule '' @ [CHR 0x27] @ Name r6 @ [CHR 0x27] @ '': dst_ip field ignored'']
              else [])"
    and e6: "\<forall>idx data.
             encode_rule idx r6 data (rule_key idx ''src_ip'') = data (rule_key idx ''src_ip'')
           \<and> encode_rule idx r6 data (rule_key idx ''dst_ip'') = data (rule_key idx ''dst_ip'')"
    by simp_all
  from t4 have v4: "IPVersion r4 = ''ipv4''" by simp
  with t4 have w4: "w4 = []" by simp
  from e6 have "encode_rule 0 r6 Map.empty (rule_key 0 ''src_ip'') = None"
    by simp
  with v6 s6 v4 w4 show ?thesis
    unfolding p6 p4 by (simp add: n6)
qed

section \<open>The vSwitch membership reconciliation\<close>

text \<open>
  C2. For every old and new server list, the servers to add are the keys of the new list
  that do not occur in the old one, in the new list's order, and the servers to remove are
  the keys of the old list that do not occur in the new one, in the old list's order, each
  as a server that carries this number only. A server whose number occurs in both lists is
  in neither result, and when both lists have the same set of keys both results are empty.
\<close>

theorem membership_diff:
  "serversToAdd old new
     = map new_server (filter (\<lambda>k. k \<notin> set (member_keys old)) (member_keys new))
   \<and> serversToRemove old new
     = map new_server (filter (\<lambda>k. k \<notin> set (member_keys new)) (member_keys old))
   \<and> (\<forall>s \<in> set (serversToAdd old new) \<union> set (serversToRemove old new).
         \<not> (ServerNumber s \<in> set (member_keys old) \<and> ServerNumber s \<in> set (member_keys new)))
   \<and> (set (member_keys old) = set (member_keys new)
        \<longrightarrow> serversToAdd old new = [] \<and> serversToRemove old new = [])"
proof (intro conjI)
  show "serversToAdd old new
     = map new_server (filter (\<lambda>k. k \<notin> set (member_keys old)) (member_keys new))"
    by (rule serversToAdd_eq)
  show "serversToRemove old new
     = map new_server (filter (\<lambda>k. k \<notin> set (member_keys new)) (member_keys old))"
    by (rule serversToRemove_eq)
  show "\<forall>s \<in> set (serversToAdd old new) \<union> set (serversToRemove old new).
         \<not> (ServerNumber s \<in> set (member_keys old) \<and> ServerNumber s \<in> set (member_keys new))"
    by (auto simp add: serversToAdd_eq serversToRemove_eq ServerNumber_new_server)
  show "set (member_keys old) = set (member_keys new)
        \<longrightarrow> serversToAdd old new = [] \<and> serversToRemove old new = []"
    by (simp add: serversToAdd_eq serversToRemove_eq)
qed

theorem membership_diff_witness:
  "serversToAdd [member 1, member 2] [member 2, member 3] = [new_server 3]
   \<and> serversToRemove [member 1, member 2] [member 2, member 3] = [new_server 1]
   \<and> set (member_keys [member 1, member 2]) = set (member_keys [member 2, member 1])
   \<and> serversToAdd [member 1, member 2] [member 2, member 1] = []
   \<and> serversToRemove [member 1, member 2] [member 2, member 1] = []"
proof -
  note t = membership_diff [of "[member 1, member 2]" "[member 2, member 3]"]
  have a: "serversToAdd [member 1, member 2] [member 2, member 3] = [new_server 3]"
    using t [THEN conjunct1] by (simp add: member_keys_examples)
  have r: "serversToRemove [member 1, member 2] [member 2, member 3] = [new_server 1]"
    using t [THEN conjunct2, THEN conjunct1] by (simp add: member_keys_examples)
  have s: "set (member_keys [member 1, member 2]) = set (member_keys [member 2, member 1])"
    by (auto simp add: member_keys_examples)
  note u = membership_diff [of "[member 1, member 2]" "[member 2, member 1]",
    THEN conjunct2, THEN conjunct2, THEN conjunct2, rule_format, OF s]
  from a r s u show ?thesis by (intro conjI) simp_all
qed

text \<open>
  C3, on the input where the code departs from it. Servers 1 and 2 are attached, 2 and 3 are
  declared, and the remote side fails the remove call. The remove call is issued before the
  add call and the add call is still issued, but the failure of the remove call is
  reported nowhere: the update returns no diagnostic at all.
\<close>

theorem remove_failure_not_reported:
  "removeVSwitchServers remove_failing_api [UpdateVSwitch ''4321'' ''lan'' 4000] example_client
       ''4321'' [new_server 1] = Some ''server not found''
   \<and> snd (snd (resourceVSwitchUpdate quote_plain remove_failing_api [] changed_resource
         (Some example_client)))
       = [UpdateVSwitch ''4321'' ''lan'' 4000, RemoveVSwitchServers ''4321'' [new_server 1],
          AddVSwitchServers ''4321'' [new_server 3], GetVSwitch ''4321'']
   \<and> fst (resourceVSwitchUpdate quote_plain remove_failing_api [] changed_resource
         (Some example_client)) = []"
proof -
  have u: "updateVSwitch remove_failing_api [] example_client (d_Id changed_resource)
      (string_or_zero (d_Get changed_resource ''name''))
      (int_or_zero (d_Get changed_resource ''vlan'')) = None"
    by (rule remove_failing_api_answers)
  note e = vswitch_update_changed [OF u changed_resource_HasChange, of quote_plain]
  have rm: "serversToRemove [member 1, member 2] [member 2, member 3] = [new_server 1]"
    by (simp add: serversToRemove_eq member_keys_examples)
  have ad: "serversToAdd [member 1, member 2] [member 2, member 3] = [new_server 3]"
    by (simp add: serversToAdd_eq member_keys_examples)
  have l: "snd (snd (resourceVSwitchUpdate quote_plain remove_failing_api [] changed_resource
         (Some example_client)))
       = [UpdateVSwitch ''4321'' ''lan'' 4000, RemoveVSwitchServers ''4321'' [new_server 1],
          AddVSwitchServers ''4321'' [new_server 3], GetVSwitch ''4321'']"
    unfolding e vswitch_read_log by (simp add: changed_resource_fields list_or_zero_def rm ad)
  have d: "fst (resourceVSwitchUpdate quote_plain remove_failing_api [] changed_resource
         (Some example_client)) = []"
    unfolding e vswitch_read_diags by (simp add: remove_failing_api_answers)
  from l d show ?thesis by (simp add: remove_failing_api_answers)
qed

text \<open>
  C8 as stated fails: with server 5 declared twice and every remote call succeeding, the
  update raises nothing and issues all four remote calls, the add call with server 5 twice.
\<close>

theorem duplicate_members_accepted:
  "member_keys (list_or_zero (snd (d_GetChange duplicate_resource ''servers''))) = [5, 5]
   \<and> fst (resourceVSwitchUpdate quote_plain accepting_api [] duplicate_resource
         (Some example_client)) = []
   \<and> snd (snd (resourceVSwitchUpdate quote_plain accepting_api [] duplicate_resource
         (Some example_client)))
       = [UpdateVSwitch ''4321'' ''lan'' 4000, RemoveVSwitchServers ''4321'' [],
          AddVSwitchServers ''4321'' [new_server 5, new_server 5], GetVSwitch ''4321'']"
proof -
  have u: "updateVSwitch accepting_api [] example_client (d_Id duplicate_resource)
      (string_or_zero (d_Get duplicate_resource ''name''))
      (int_or_zero (d_Get duplicate_resource ''vlan'')) = None"
    by (rule accepting_api_answers)
  note e = vswitch_update_changed [OF u duplicate_resource_HasChange, of quote_plain]
  have rm: "serversToRemove [] [member 5, member 5] = []"
    by (simp add: serversToRemove_eq member_keys_examples member_keys_Nil)
  have ad: "serversToAdd [] [member 5, member 5] = [new_server 5, new_server 5]"
    by (simp add: serversToAdd_eq member_keys_examples member_keys_Nil)
  have l: "snd (snd (resourceVSwitchUpdate quote_plain accepting_api [] duplicate_resource
         (Some example_client)))
       = [UpdateVSwitch ''4321'' ''lan'' 4000, RemoveVSwitchServers ''4321'' [],
          AddVSwitchServers ''4321'' [new_server 5, new_server 5], GetVSwitch ''4321'']"
    unfolding e vswitch_read_log by (simp add: duplicate_resource_fields list_or_zero_def rm ad)
  have d: "fst (resourceVSwitchUpdate quote_plain accepting_api [] duplicate_resource
         (Some example_client)) = []"
    unfolding e vswitch_read_diags by (simp add: accepting_api_answers)
  have k: "member_keys (list_or_zero (snd (d_GetChange duplicate_resource ''servers''))) = [5, 5]"
    by (simp add: duplicate_resource_fields list_or_zero_def member_keys_examples)
  from k d l show ?thesis by (intro conjI)
qed

text \<open>
  C8, as the code has it. The reconciliation checks nothing about the declared members:
  whatever they are, duplicates included, it first issues the name and VLAN update call;
  when that call succeeds and the server list changed, it issues the remove call, the add
  call and the read, in this order, and its diagnostics are those of the read.
\<close>

theorem membership_no_uniqueness_check:
  "let vSwitchID = d_Id d;
       name = string_or_zero (d_Get d ''name'');
       vlan = int_or_zero (d_Get d ''vlan'');
       oldServers = list_or_zero (fst (d_GetChange d ''servers''));
       newServers = list_or_zero (snd (d_GetChange d ''servers''));
       calls = [UpdateVSwitch vSwitchID name vlan,
                RemoveVSwitchServers vSwitchID (serversToRemove oldServers newServers),
                AddVSwitchServers vSwitchID (serversToAdd oldServers newServers)]
   in (\<exists>rest. snd (snd (resourceVSwitchUpdate quote api log d (Some c)))
                 = log @ UpdateVSwitch vSwitchID name vlan # rest)
    \<and> (updateVSwitch api log c vSwitchID name vlan = None \<longrightarrow> d_HasChange d ''servers''
        \<longrightarrow> snd (snd (resourceVSwitchUpdate quote api log d (Some c)))
              = log @ calls @ [GetVSwitch vSwitchID]
          \<and> fst (resourceVSwitchUpdate quote api log d (Some c))
              = fst (resourceVSwitchRead api (log @ calls) d (Some c)))"
proof -
  have changed_log: "snd (snd (resourceVSwitchUpdate quote api log d (Some c)))
        = log @ [UpdateVSwitch (d_Id d) (string_or_zero (d_Get d ''name'')) (int_or_zero (d_Get d ''vlan'')),
            RemoveVSwitchServers (d_Id d)
              (serversToRemove (list_or_zero (fst (d_GetChange d ''servers'')))
                 (list_or_zero (snd (d_GetChange d ''servers'')))),
            AddVSwitchServers (d_Id d)
              (serversToAdd (list_or_zero (fst (d_GetChange d ''servers'')))
                 (list_or_zero (snd (d_GetChange d ''servers''))))] @ [GetVSwitch (d_Id d)]"
    if u: "updateVSwitch api log c (d_Id d) (string_or_zero (d_Get d ''name''))
        (int_or_zero (d_Get d ''vlan'')) = None" and h: "d_HasChange d ''servers''"
    unfolding vswitch_update_changed [OF u h] vswitch_read_log by simp
  have changed_diags: "fst (resourceVSwitchUpdate quote api log d (Some c))
        = fst (resourceVSwitchRead api
            (log @ [UpdateVSwitch (d_Id d) (string_or_zero (d_Get d ''name'')) (int_or_zero (d_Get d ''vlan'')),
              RemoveVSwitchServers (d_Id d)
                (serversToRemove (list_or_zero (fst (d_GetChange d ''servers'')))
                   (list_or_zero (snd (d_GetChange d ''servers'')))),
              AddVSwitchServers (d_Id d)
                (serversToAdd (list_or_zero (fst (d_GetChange d ''servers'')))
                   (list_or_zero (snd (d_GetChange d ''servers''))))]) d (Some c))"
    if u: "updateVSwitch api log c (d_Id d) (string_or_zero (d_Get d ''name''))
        (int_or_zero (d_Get d ''vlan'')) = None" and h: "d_HasChange d ''servers''"
    unfolding vswitch_update_changed [OF u h] by (rule refl)
  show ?thesis
    unfolding Let_def
    by (intro conjI impI vswitch_update_first_call changed_log changed_diags) assumption+
qed

theorem membership_no_uniqueness_check_witness:
  "updateVSwitch accepting_api [] example_client ''4321'' ''lan'' 4000 = None
   \<and> d_HasChange duplicate_resource ''servers''
   \<and> snd (snd (resourceVSwitchUpdate quote_plain accepting_api [] duplicate_resource
         (Some example_client)))
       = [UpdateVSwitch ''4321'' ''lan'' 4000, RemoveVSwitchServers ''4321'' [],
          AddVSwitchServers ''4321'' [new_server 5, new_server 5], GetVSwitch ''4321'']"
proof -
  have u: "updateVSwitch accepting_api [] example_client ''4321'' ''lan'' 4000 = None"
    by (rule accepting_api_answers)
  have rm: "serversToRemove [] [member 5, member 5] = []"
    by (simp add: serversToRemove_eq member_keys_examples member_keys_Nil)
  have ad: "serversToAdd [] [member 5, member 5] = [new_server 5, new_server 5]"
    by (simp add: serversToAdd_eq member_keys_examples member_keys_Nil)
  note t = membership_no_uniqueness_check [of duplicate_resource quote_plain accepting_api "[]"
    example_client, unfolded Let_def duplicate_resource_fields, THEN conjunct2, rule_format,
    OF u duplicate_resource_HasChange, THEN conjunct1]
  from t have "snd (snd (resourceVSwitchUpdate quote_plain accepting_api [] duplicate_resource
         (Some example_client)))
       = [UpdateVSwitch ''4321'' ''lan'' 4000, RemoveVSwitchServers ''4321'' [],
          AddVSwitchServers ''4321'' [new_server 5, new_server 5], GetVSwitch ''4321'']"
    by (simp add: list_or_zero_def rm ad)
  with u duplicate_resource_HasChange show ?thesis by (intro conjI)
qed

section \<open>The firewall encoder\<close>

text \<open>
  C4, as the code has it. For every rule of a rule set, the encoder emits the name, the
  address family (ipv4 when it is empty), the action and the destination port whatever
  their value; it emits the source address exactly when the family is not ipv6 (also when
  the address is empty), the destination address exactly when the family is not ipv6 and
  the address is non-empty, and each of source port, protocol and TCP flags exactly when it
  is non-empty.
\<close>

theorem encoder_emitted_fields:
  assumes "i < length (Input (Rules fw))"
  shows "let r = Input (Rules fw) ! i; data = setFirewall_data fw in
     data (rule_key i ''name'') = Some [Name r]
   \<and> data (rule_key i ''ip_version'') = Some [effective_version r]
   \<and> data (rule_key i ''action'') = Some [Action r]
   \<and> data (rule_key i ''dst_port'') = Some [DstPort r]
   \<and> data (rule_key i ''src_ip'')
       = (if effective_version r \<noteq> ''ipv6'' then Some [SrcIP r] else None)
   \<and> data (rule_key i ''dst_ip'')
       = (if effective_version r \<noteq> ''ipv6'' \<and> DstIP r \<noteq> [] then Some [DstIP r] else None)
   \<and> data (rule_key i ''src_port'') = (if SrcPort r \<noteq> [] then Some [SrcPort r] else None)
   \<and> data (rule_key i ''protocol'') = (if Protocol r \<noteq> [] then Some [Protocol r] else None)
   \<and> data (rule_key i ''tcp_flags'') = (if TCPFlags r \<noteq> [] then Some [TCPFlags r] else None)"
  using assms unfolding Let_def
  by (simp only: setFirewall_data_key rule_group_field if_True) simp

theorem encoder_emitted_fields_witness:
  "(0::nat) < length (Input (Rules example_firewall))
   \<and> setFirewall_data example_firewall (rule_key 0 ''name'') = Some [''Allow SSH'']
   \<and> setFirewall_data example_firewall (rule_key 0 ''src_ip'') = Some ['''']
   \<and> setFirewall_data example_firewall (rule_key 0 ''dst_ip'') = None
   \<and> setFirewall_data example_firewall (rule_key 0 ''dst_port'') = Some [''22'']
   \<and> setFirewall_data example_firewall (rule_key 0 ''src_port'') = None"
proof -
  have h: "(0::nat) < length (Input (Rules example_firewall))"
    by (simp add: example_firewall_def)
  have r: "Input (Rules example_firewall) ! 0 = ssh_rule"
    by (simp add: example_firewall_def)
  have v: "effective_version ssh_rule = ''ipv4''"
    by (simp add: effective_version_def ssh_rule_def)
  have f: "Name ssh_rule = ''Allow SSH''" "SrcIP ssh_rule = []" "DstIP ssh_rule = []"
    "DstPort ssh_rule = ''22''" "SrcPort ssh_rule = []"
    by (simp_all add: ssh_rule_def)
  from encoder_emitted_fields [OF h] h show ?thesis
    unfolding Let_def r v f by simp
qed

text \<open>
  C4 as stated fails: the first rule of the example has an empty source address, and the
  encoder emits its source address field all the same.
\<close>

theorem encoder_emits_empty_src_ip:
  "\<not> (setFirewall_data example_firewall (rule_key 0 ''src_ip'') \<noteq> None
        \<longleftrightarrow> SrcIP (Input (Rules example_firewall) ! 0) \<noteq> [])"
proof -
  have h: "(0::nat) < length (Input (Rules example_firewall))"
    by (simp add: example_firewall_def)
  have r: "Input (Rules example_firewall) ! 0 = ssh_rule"
    by (simp add: example_firewall_def)
  have v: "effective_version ssh_rule = ''ipv4''"
    by (simp add: effective_version_def ssh_rule_def)
  have f: "SrcIP ssh_rule = []"
    by (simp add: ssh_rule_def)
  have "setFirewall_data example_firewall (rule_key 0 ''src_ip'') = Some ['''']"
    using h by (simp only: setFirewall_data_key rule_group_src_ip r v f) simp
  then show ?thesis by (simp add: r f)
qed

text \<open>
  C5. A rule set of N rules is encoded into exactly the input groups with the contiguous
  indices 0 to N - 1, the group of index i holding the fields of the i-th rule handed to the
  encoder, so in their order; beside them there is the one fixed output group, named
  "Allow all" with action accept, whatever the input; and the form data hold no other key
  than these and the two top-level flags.
\<close>

theorem encoder_rule_groups:
  "let rs = Input (Rules fw); data = setFirewall_data fw in
     (\<forall>i < length rs.
          data (rule_key i ''name'') = Some [Name (rs ! i)]
        \<and> data (rule_key i ''ip_version'') = Some [effective_version (rs ! i)]
        \<and> data (rule_key i ''action'') = Some [Action (rs ! i)]
        \<and> (\<forall>f. data (rule_key i f) = map_option (\<lambda>v. [v]) (map_of (rule_group (rs ! i)) f)))
   \<and> (\<forall>i f. length rs \<le> i \<longrightarrow> data (rule_key i f) = None)
   \<and> data ''rules[output][0][name]'' = Some [''Allow all'']
   \<and> data ''rules[output][0][action]'' = Some [''accept'']
   \<and> (\<forall>k \<in> dom data.
          k \<in> {''whitelist_hos'', ''status'', ''rules[output][0][name]'', ''rules[output][0][action]''}
        \<or> (\<exists>i f. i < length rs \<and> f \<in> set rule_field_names \<and> k = rule_key i f))"
proof -
  have groups: "setFirewall_data fw (rule_key i ''name'') = Some [Name (Input (Rules fw) ! i)]
      \<and> setFirewall_data fw (rule_key i ''ip_version'') = Some [effective_version (Input (Rules fw) ! i)]
      \<and> setFirewall_data fw (rule_key i ''action'') = Some [Action (Input (Rules fw) ! i)]
      \<and> (\<forall>f. setFirewall_data fw (rule_key i f)
              = map_option (\<lambda>v. [v]) (map_of (rule_group (Input (Rules fw) ! i)) f))"
    if "i < length (Input (Rules fw))" for i
    using that by (simp only: setFirewall_data_key rule_group_field if_True) simp
  have beyond: "\<forall>i f. length (Input (Rules fw)) \<le> i \<longrightarrow> setFirewall_data fw (rule_key i f) = None"
    by (simp add: setFirewall_data_key)
  have keys: "k \<in> {''whitelist_hos'', ''status'', ''rules[output][0][name]'', ''rules[output][0][action]''}
        \<or> (\<exists>i f. i < length (Input (Rules fw)) \<and> f \<in> set rule_field_names \<and> k = rule_key i f)"
    if "k \<in> dom (setFirewall_data fw)" for k
  proof -
    from that obtain vs where "setFirewall_data fw k = Some vs" by (auto simp add: dom_def)
    then show ?thesis by (rule setFirewall_data_dom)
  qed
  have all_groups: "\<forall>i < length (Input (Rules fw)).
      setFirewall_data fw (rule_key i ''name'') = Some [Name (Input (Rules fw) ! i)]
      \<and> setFirewall_data fw (rule_key i ''ip_version'') = Some [effective_version (Input (Rules fw) ! i)]
      \<and> setFirewall_data fw (rule_key i ''action'') = Some [Action (Input (Rules fw) ! i)]
      \<and> (\<forall>f. setFirewall_data fw (rule_key i f)
              = map_option (\<lambda>v. [v]) (map_of (rule_group (Input (Rules fw) ! i)) f))"
  proof (intro allI impI)
    fix i
    assume "i < length (Input (Rules fw))"
    then show "setFirewall_data fw (rule_key i ''name'') = Some [Name (Input (Rules fw) ! i)]
      \<and> setFirewall_data fw (rule_key i ''ip_version'') = Some [effective_version (Input (Rules fw) ! i)]
      \<and> setFirewall_data fw (rule_key i ''action'') = Some [Action (Input (Rules fw) ! i)]
      \<and> (\<forall>f. setFirewall_data fw (rule_key i f)
              = map_option (\<lambda>v. [v]) (map_of (rule_group (Input (Rules fw) ! i)) f))"
      by (rule groups)
  qed
  have all_keys: "\<forall>k \<in> dom (setFirewall_data fw).
      k \<in> {''whitelist_hos'', ''status'', ''rules[output][0][name]'', ''rules[output][0][action]''}
        \<or> (\<exists>i f. i < length (Input (Rules fw)) \<and> f \<in> set rule_field_names \<and> k = rule_key i f)"
  proof (rule ballI)
    fix k
    assume "k \<in> dom (setFirewall_data fw)"
    then show "k \<in> {''whitelist_hos'', ''status'', ''rules[output][0][name]'', ''rules[output][0][action]''}
        \<or> (\<exists>i f. i < length (Input (Rules fw)) \<and> f \<in> set rule_field_names \<and> k = rule_key i f)"
      by (rule keys)
  qed
  show ?thesis
    unfolding Let_def
    using all_groups beyond setFirewall_data_fixed(3) [of fw] setFirewall_data_fixed(4) [of fw] all_keys
    by (intro conjI)
qed

theorem encoder_rule_groups_witness:
  "setFirewall_data example_firewall (rule_key 0 ''name'') = Some [''Allow SSH'']
   \<and> setFirewall_data example_firewall (rule_key 1 ''name'') = Some [''web6'']
   \<and> setFirewall_data example_firewall (rule_key 1 ''ip_version'') = Some [''ipv6'']
   \<and> setFirewall_data example_firewall (rule_key 2 ''name'') = None
   \<and> setFirewall_data example_firewall ''rules[output][0][name]'' = Some [''Allow all'']"
proof -
  have len: "length (Input (Rules example_firewall)) = 2"
    by (simp add: example_firewall_def)
  have r: "Input (Rules example_firewall) ! 0 = ssh_rule" "Input (Rules example_firewall) ! Suc 0 = v6_rule"
    by (simp_all add: example_firewall_def)
  have f: "Name ssh_rule = ''Allow SSH''" "Name v6_rule = ''web6''"
    "effective_version v6_rule = ''ipv6''"
    by (simp_all add: ssh_rule_def v6_rule_def effective_version_def)
  note t = encoder_rule_groups [of example_firewall, unfolded Let_def len]
  note g = t [THEN conjunct1, rule_format]
  note b = t [THEN conjunct2, THEN conjunct1, rule_format]
  note o = t [THEN conjunct2, THEN conjunct2, THEN conjunct1]
  have "setFirewall_data example_firewall (rule_key 0 ''name'') = Some [''Allow SSH'']"
    using g [of 0, THEN conjunct1] by (simp add: r f)
  moreover have "setFirewall_data example_firewall (rule_key 1 ''name'') = Some [''web6'']"
    using g [of 1, THEN conjunct1] by (simp add: r f)
  moreover have "setFirewall_data example_firewall (rule_key 1 ''ip_version'') = Some [''ipv6'']"
    using g [of 1, THEN conjunct2, THEN conjunct1] by (simp add: r f)
  moreover have "setFirewall_data example_firewall (rule_key 2 ''name'') = None"
    using b [of 2 "''name''"] by simp
  ultimately show ?thesis using o by (intro conjI)
qed

section \<open>The firewall resource\<close>

text \<open>
  C6, as the code has it. The encoder writes the whitelist flag as the literal "true" or
  "false" under \<^verbatim>\<open>whitelist_hos\<close>; it writes the status string it is given unchanged
  under \<^verbatim>\<open>status\<close>, and the create operation turns the active flag into the status
  "active" or "disabled" before it calls the encoder.
\<close>

theorem encoder_flag_values:
  assumes "new_request_error env ''POST''
             (url c @ ''/firewall/'' @ string_or_zero (d_Get d ''server_ip'')) = None"
  shows "setFirewall_data fw ''whitelist_hos''
           = Some [if WhitelistHetznerServices fw then ''true'' else ''false'']
       \<and> setFirewall_data fw ''status'' = Some [Status fw]
       \<and> sent_values (drop (length log) (snd (snd (resourceFirewallCreate env log d (Some c)))))
             ''whitelist_hos''
           = [Some [if bool_or_zero (d_Get d ''whitelist_hos'') then ''true'' else ''false'']]
       \<and> sent_values (drop (length log) (snd (snd (resourceFirewallCreate env log d (Some c)))))
             ''status''
           = [Some [if bool_or_zero (d_Get d ''active'') then ''active'' else ''disabled'']]"
  using create_sent_flags [OF assms, of log] setFirewall_data_fixed(1,2) [of fw]
  by (intro conjI)

theorem encoder_flag_values_witness:
  "new_request_error accepting_env ''POST''
     (url example_client @ ''/firewall/'' @ string_or_zero (d_Get example_resource ''server_ip'')) = None
   \<and> setFirewall_data example_firewall ''whitelist_hos'' = Some [''true'']
   \<and> setFirewall_data example_firewall ''status'' = Some [''active'']
   \<and> sent_values (snd (snd (resourceFirewallCreate accepting_env [] example_resource
          (Some example_client)))) ''whitelist_hos'' = [Some [''true'']]"
proof -
  have h: "new_request_error accepting_env ''POST''
     (url example_client @ ''/firewall/'' @ string_or_zero (d_Get example_resource ''server_ip'')) = None"
    by (rule accepting_env_answers)
  have f: "WhitelistHetznerServices example_firewall" "Status example_firewall = ''active''"
    by (simp_all add: example_firewall_def)
  have g: "bool_or_zero (d_Get example_resource ''whitelist_hos'')"
    by (simp add: example_d_Get bool_or_zero_def)
  from encoder_flag_values [OF h, of example_firewall "[]"] h show ?thesis
    by (simp add: f g)
qed

text \<open>
  C6 as stated fails on the active flag: for a resource whose \<^verbatim>\<open>active\<close> is true, the
  request carries the status "active", not "true".
\<close>

theorem active_flag_sent_as_status_word:
  "bool_or_zero (d_Get example_resource ''active'')
   \<and> sent_values (snd (snd (resourceFirewallCreate accepting_env [] example_resource
          (Some example_client)))) ''status'' = [Some [''active'']]
   \<and> [Some [''active'']] \<noteq> [Some [''true'']]"
proof -
  have h: "new_request_error accepting_env ''POST''
     (url example_client @ ''/firewall/'' @ string_or_zero (d_Get example_resource ''server_ip'')) = None"
    by (rule accepting_env_answers)
  have g: "bool_or_zero (d_Get example_resource ''active'')"
    by (simp add: example_d_Get bool_or_zero_def)
  from create_sent_flags(2) [OF h, of "[]"] g show ?thesis
    by simp
qed

text \<open>
  C7. The update operation issues the same request as the create operation and returns the
  same diagnostics, for every planned state, client and network; it leaves the resource
  data as they are. The request it sends carries the encoding of the whole planned rule
  set: every rule declared in the planned state is built and every built rule has its
  group in the form data, whatever the prior state was.
\<close>

theorem firewall_update_is_full_replace:
  "fst (resourceFirewallUpdate env log d m) = fst (resourceFirewallCreate env log d m)
   \<and> snd (snd (resourceFirewallUpdate env log d m)) = snd (snd (resourceFirewallCreate env log d m))
   \<and> fst (snd (resourceFirewallUpdate env log d m)) = d
   \<and> (new_request_error env ''POST''
          (url c @ ''/firewall/'' @ string_or_zero (d_Get d ''server_ip'')) = None
        \<longrightarrow> snd (snd (resourceFirewallUpdate env log d (Some c)))
              = log @ [firewall_request c (planned_firewall d)])
   \<and> snd (planned_rules d)
        = map (snd \<circ> rule_of_properties) (List.map_filter as_map (list_or_zero (d_Get d ''rule'')))
   \<and> (\<forall>i < length (snd (planned_rules d)).
          setFirewall_data (planned_firewall d) (rule_key i ''name'')
            = Some [Name (snd (planned_rules d) ! i)])"
proof -
  have same: "fst (resourceFirewallUpdate env log d m) = fst (resourceFirewallCreate env log d m)
      \<and> snd (snd (resourceFirewallUpdate env log d m)) = snd (snd (resourceFirewallCreate env log d m))
      \<and> fst (snd (resourceFirewallUpdate env log d m)) = d"
  proof (cases m)
    case None
    then show ?thesis
      by (simp add: resourceFirewallUpdate_def resourceFirewallCreate_def)
  next
    case (Some c')
    then show ?thesis
      by (simp add: update_unfold create_unfold split: prod.split option.split)
  qed
  have sent: "new_request_error env ''POST''
          (url c @ ''/firewall/'' @ string_or_zero (d_Get d ''server_ip'')) = None
        \<longrightarrow> snd (snd (resourceFirewallUpdate env log d (Some c)))
              = log @ [firewall_request c (planned_firewall d)]"
  proof
    assume "new_request_error env ''POST''
          (url c @ ''/firewall/'' @ string_or_zero (d_Get d ''server_ip'')) = None"
    then have "snd (setFirewall env c log (planned_firewall d))
        = log @ [firewall_request c (planned_firewall d)]"
      by (intro setFirewall_sent) simp
    then show "snd (snd (resourceFirewallUpdate env log d (Some c)))
        = log @ [firewall_request c (planned_firewall d)]"
      by (simp only: update_log)
  qed
  have all: "snd (planned_rules d)
        = map (snd \<circ> rule_of_properties) (List.map_filter as_map (list_or_zero (d_Get d ''rule'')))"
    by (simp add: build_rules_eq)
  have groups: "\<forall>i < length (snd (planned_rules d)).
          setFirewall_data (planned_firewall d) (rule_key i ''name'')
            = Some [Name (snd (planned_rules d) ! i)]"
    by (simp add: setFirewall_data_key rule_group_name)
  from same sent all groups show ?thesis
    by (intro conjI) (rule conjunct1, assumption, rule conjunct1, rule conjunct2, assumption,
      rule conjunct2, rule conjunct2, assumption)
qed

theorem firewall_update_is_full_replace_witness:
  "new_request_error accepting_env ''POST''
     (url example_client @ ''/firewall/'' @ string_or_zero (d_Get example_resource ''server_ip'')) = None
   \<and> snd (snd (resourceFirewallUpdate accepting_env [] example_resource (Some example_client)))
       = snd (snd (resourceFirewallCreate accepting_env [] example_resource (Some example_client)))
   \<and> snd (snd (resourceFirewallUpdate accepting_env [] example_resource (Some example_client)))
       = [firewall_request example_client (planned_firewall example_resource)]
   \<and> length (snd (planned_rules example_resource)) = 2
   \<and> setFirewall_data (planned_firewall example_resource) (rule_key 1 ''name'') = Some [''web6'']"
proof -
  have h: "new_request_error accepting_env ''POST''
     (url example_client @ ''/firewall/'' @ string_or_zero (d_Get example_resource ''server_ip'')) = None"
    by (rule accepting_env_answers)
  note t = firewall_update_is_full_replace
    [of accepting_env "[]" example_resource "Some example_client" example_client]
  note same = t [THEN conjunct2, THEN conjunct1]
  note sent = t [THEN conjunct2, THEN conjunct2, THEN conjunct2, THEN conjunct1, rule_format, OF h]
  note all = t [THEN conjunct2, THEN conjunct2, THEN conjunct2, THEN conjunct2, THEN conjunct1]
  note groups = t [THEN conjunct2, THEN conjunct2, THEN conjunct2, THEN conjunct2, THEN conjunct2,
    rule_format]
  have rules: "snd (planned_rules example_resource)
      = [snd (rule_of_properties ssh_properties), snd (rule_of_properties v6_properties)]"
    unfolding all by (simp add: example_d_Get list_or_zero_def)
  have len: "length (snd (planned_rules example_resource)) = 2"
    unfolding rules by simp
  have name: "Name (snd (rule_of_properties v6_properties)) = ''web6''"
    by (simp add: rule_of_properties_def Let_def v6_properties_def map_index_def string_or_zero_def)
  have "setFirewall_data (planned_firewall example_resource) (rule_key 1 ''name'')
      = Some [Name (snd (planned_rules example_resource) ! 1)]"
    using groups [of 1] len by simp
  also have "snd (planned_rules example_resource) ! 1 = snd (rule_of_properties v6_properties)"
    unfolding rules by simp
  finally have g: "setFirewall_data (planned_firewall example_resource) (rule_key 1 ''name'')
      = Some [''web6'']"
    unfolding name .
  from h same sent len g show ?thesis
    by (intro conjI) simp_all
qed

text \<open>
  C9. The delete operation of the firewall resource sends no request, reports nothing and
  leaves the resource data untouched, whatever its arguments.
\<close>

theorem firewall_delete_is_silent:
  "resourceFirewallDelete env log d m = ([], d, log)"
  by (simp add: resourceFirewallDelete_def)

text \<open>
  C10. The create operation sets the identity to the planned server address when
  \<^const>\<open>setFirewall\<close> returns no error, and only then: on an error it returns that error as
  its only diagnostic and the resource data unchanged, and so it does when the client
  cannot be read from the meta value.
\<close>

theorem firewall_create_identity:
  "(case setFirewall env c log (planned_firewall d) of
      (None, log') \<Rightarrow>
        resourceFirewallCreate env log d (Some c)
          = (fst (planned_rules d), d\<lparr>rd_id := string_or_zero (d_Get d ''server_ip'')\<rparr>, log')
    | (Some e, log') \<Rightarrow>
        resourceFirewallCreate env log d (Some c) = (diag_FromErr e, d, log'))
   \<and> resourceFirewallCreate env log d None
       = (diag_Errorf ''Unable to cast meta to HetznerRobotClient'', d, log)"
proof (rule conjI)
  show "case setFirewall env c log (planned_firewall d) of
      (None, log') \<Rightarrow>
        resourceFirewallCreate env log d (Some c)
          = (fst (planned_rules d), d\<lparr>rd_id := string_or_zero (d_Get d ''server_ip'')\<rparr>, log')
    | (Some e, log') \<Rightarrow>
        resourceFirewallCreate env log d (Some c) = (diag_FromErr e, d, log')"
    by (simp add: create_unfold d_SetId_def split: prod.split option.split)
  show "resourceFirewallCreate env log d None
       = (diag_Errorf ''Unable to cast meta to HetznerRobotClient'', d, log)"
    by (simp add: resourceFirewallCreate_def)
qed

theorem firewall_create_identity_witness:
  "rd_id example_resource = []
   \<and> rd_id (fst (snd (resourceFirewallCreate accepting_env [] example_resource (Some example_client))))
       = ''1.1.1.1''
   \<and> fst (snd (resourceFirewallCreate rejecting_env [] example_resource (Some example_client)))
       = example_resource
   \<and> fst (resourceFirewallCreate rejecting_env [] example_resource (Some example_client))
       = diag_FromErr ''hetzner webservice response status 500: oops''"
proof -
  have ip: "string_or_zero (d_Get example_resource ''server_ip'') = ''1.1.1.1''"
    by (simp add: example_d_Get string_or_zero_def)
  have a: "rd_id (fst (snd (resourceFirewallCreate accepting_env [] example_resource (Some example_client))))
       = ''1.1.1.1''"
    using firewall_create_identity [where env = accepting_env and c = example_client
        and log = "[]" and d = example_resource]
      setFirewall_accepted [where c = example_client and log = "[]"
        and fw = "planned_firewall example_resource"]
    by (cases "setFirewall accepting_env example_client [] (planned_firewall example_resource)")
      (simp add: ip)
  have r: "fst (snd (resourceFirewallCreate rejecting_env [] example_resource (Some example_client)))
       = example_resource
     \<and> fst (resourceFirewallCreate rejecting_env [] example_resource (Some example_client))
       = diag_FromErr ''hetzner webservice response status 500: oops''"
    using firewall_create_identity [where env = rejecting_env and c = example_client
        and log = "[]" and d = example_resource]
      setFirewall_rejected [where c = example_client and log = "[]"
        and fw = "planned_firewall example_resource"]
    by (cases "setFirewall rejecting_env example_client [] (planned_firewall example_resource)")
      simp
  have "rd_id example_resource = []"
    by (simp add: example_resource_def)
  with a r show ?thesis by (intro conjI) simp_all
qed

end
